theory Spec2Isabelle
  imports Complex_Main
begin

section \<open>Python values of the document IR\<close>

text \<open>
  The layout optimizer (\<^verbatim>\<open>ReportEngine/renderers/pdf_layout_optimizer.py\<close>) walks a document
  IR that comes from JSON: nested dicts and lists with scalar leaves. Nothing in the
  analyzer checks the shape of that tree beyond a few \<^verbatim>\<open>isinstance\<close> tests, so the IR
  is modelled as the dynamically typed value Python sees.

  A Python \<^verbatim>\<open>str\<close> is the list of its code points (\<^verbatim>\<open>len\<close> counts code points, and
  the width estimator compares code points with U+4E00 and U+9FFF). A dict is an
  association list in which the first binding of a key is the one that counts; its keys
  are strings, as in JSON. A finite float is carried by its exact value.
\<close>

type_synonym pystr = "nat list"

datatype pyval =
    PNone
  | PBool bool
  | PInt int
  | PFloat rat
  | PStr pystr
  | PList "pyval list"
  | PDict "(pystr \<times> pyval) list"

text \<open>An ASCII literal of the source as a Python string.\<close>

definition lit :: "string \<Rightarrow> pystr" where
  "lit s = map of_char s"

text \<open>The exceptions the built-in operations of the analyzer can raise.\<close>

datatype pyerr = AttributeError | TypeError | KeyError | IndexError

text \<open>
  What the model takes from the Python runtime instead of defining it: the Unicode
  tables behind \<^verbatim>\<open>str.isalpha\<close> and \<^verbatim>\<open>str.isdigit\<close> outside ASCII, and the text
  of \<^verbatim>\<open>str(v)\<close> for floats, lists and dicts (float formatting and \<^verbatim>\<open>repr\<close>).
\<close>

record pylib =
  isalpha_ext :: "nat \<Rightarrow> bool"
  isdigit_ext :: "nat \<Rightarrow> bool"
  repr_ext :: "pyval \<Rightarrow> pystr"

subsection \<open>Built-in operations\<close>

definition dict_get :: "(pystr \<times> pyval) list \<Rightarrow> string \<Rightarrow> pyval \<Rightarrow> pyval" where
  \<comment> \<open>\<^verbatim>\<open>d.get(key, default)\<close>\<close>
  "dict_get d k dflt = (case map_of d (lit k) of None \<Rightarrow> dflt | Some v \<Rightarrow> v)"

fun dict_keys :: "(pystr \<times> pyval) list \<Rightarrow> pystr list" where
  "dict_keys [] = []"
| "dict_keys ((k, v) # d) = k # filter (\<lambda>k'. k' \<noteq> k) (dict_keys d)"

fun truthy :: "pyval \<Rightarrow> bool" where
  "truthy PNone = False"
| "truthy (PBool b) = b"
| "truthy (PInt i) = (i \<noteq> 0)"
| "truthy (PFloat r) = (r \<noteq> 0)"
| "truthy (PStr s) = (s \<noteq> [])"
| "truthy (PList xs) = (xs \<noteq> [])"
| "truthy (PDict d) = (d \<noteq> [])"

fun is_dict :: "pyval \<Rightarrow> bool" where
  "is_dict (PDict d) = True"
| "is_dict v = False"

fun py_len :: "pyval \<Rightarrow> pyerr + nat" where
  "py_len (PStr s) = Inr (length s)"
| "py_len (PList xs) = Inr (length xs)"
| "py_len (PDict d) = Inr (length (dict_keys d))"
| "py_len v = Inl TypeError"

fun py_iter :: "pyval \<Rightarrow> pyerr + pyval list" where
  \<comment> \<open>the items a \<^verbatim>\<open>for\<close> loop visits: a string yields its characters, a dict its keys\<close>
  "py_iter (PList xs) = Inr xs"
| "py_iter (PStr s) = Inr (map (\<lambda>c. PStr [c]) s)"
| "py_iter (PDict d) = Inr (map PStr (dict_keys d))"
| "py_iter v = Inl TypeError"

fun py_first :: "pyval \<Rightarrow> pyerr + pyval" where
  \<comment> \<open>\<^verbatim>\<open>v[0]\<close>; a dict of the IR has string keys only, so the key \<^verbatim>\<open>0\<close> is missing\<close>
  "py_first (PList []) = Inl IndexError"
| "py_first (PList (x # xs)) = Inr x"
| "py_first (PStr []) = Inl IndexError"
| "py_first (PStr (c # s)) = Inr (PStr [c])"
| "py_first (PDict d) = Inl KeyError"
| "py_first v = Inl TypeError"

fun digits_of :: "nat \<Rightarrow> pystr" where
  "digits_of n = (if n < 10 then [48 + n] else digits_of (n div 10) @ [48 + n mod 10])"

declare digits_of.simps [simp del]

definition str_of_int :: "int \<Rightarrow> pystr" where
  "str_of_int i = (if i < 0 then 45 # digits_of (nat (- i)) else digits_of (nat i))"

fun py_str :: "pylib \<Rightarrow> pyval \<Rightarrow> pystr" where
  \<comment> \<open>\<^verbatim>\<open>str(v)\<close>\<close>
  "py_str L (PStr s) = s"
| "py_str L PNone = lit ''None''"
| "py_str L (PBool b) = (if b then lit ''True'' else lit ''False'')"
| "py_str L (PInt i) = str_of_int i"
| "py_str L v = repr_ext L v"

text \<open>Sequencing of calls that may raise, and a \<^verbatim>\<open>for\<close> loop whose body may raise.\<close>

definition and_then :: "pyerr + 'a \<Rightarrow> ('a \<Rightarrow> pyerr + 'b) \<Rightarrow> pyerr + 'b" where
  "and_then m f = (case m of Inl e \<Rightarrow> Inl e | Inr x \<Rightarrow> f x)"

fun for_each :: "('a \<Rightarrow> 's \<Rightarrow> pyerr + 's) \<Rightarrow> 'a list \<Rightarrow> 's \<Rightarrow> pyerr + 's" where
  "for_each body [] s = Inr s"
| "for_each body (x # xs) s =
     (case body x s of Inl e \<Rightarrow> Inl e | Inr s' \<Rightarrow> for_each body xs s')"

lemma and_then_cong [fundef_cong]:
  "m = m' \<Longrightarrow> (\<And>x. m' = Inr x \<Longrightarrow> f x = f' x) \<Longrightarrow> and_then m f = and_then m' f'"
  by (simp add: and_then_def split: sum.splits)

lemma for_each_cong [fundef_cong]:
  "xs = ys \<Longrightarrow> s = t \<Longrightarrow> (\<And>x u. x \<in> set ys \<Longrightarrow> body x u = body' x u)
     \<Longrightarrow> for_each body xs s = for_each body' ys t"
proof (induction ys arbitrary: xs s t)
  case Nil
  then show ?case by simp
next
  case (Cons y ys)
  then show ?case by (simp split: sum.splits)
qed

lemma and_then_simps [simp]:
  "and_then (Inl e) f = Inl e"
  "and_then (Inr x) f = f x"
  by (simp_all add: and_then_def)

section \<open>Document Analyzer\<close>

text \<open>The statistics dict that \<^verbatim>\<open>_analyze_document\<close> creates and fills.\<close>

record doc_stats =
  kpi_count :: int
  table_count :: int
  chart_count :: int
  callout_count :: int
  max_kpi_value_length :: int
  max_table_columns :: int
  max_table_rows :: int
  total_content_length :: int
  has_long_text :: bool

definition initial_stats :: doc_stats where
  "initial_stats = \<lparr> kpi_count = 0, table_count = 0, chart_count = 0, callout_count = 0,
     max_kpi_value_length = 0, max_table_columns = 0, max_table_rows = 0,
     total_content_length = 0, has_long_text = False \<rparr>"

definition inline_text :: "pylib \<Rightarrow> pyval \<Rightarrow> pystr" where
  \<comment> \<open>what one inline adds to \<^verbatim>\<open>text_parts\<close>\<close>
  "inline_text L inline =
     (case inline of
        PDict d \<Rightarrow> (let text = dict_get d ''text'' (PStr []) in
                    if truthy text then py_str L text else [])
      | PStr s \<Rightarrow> s
      | _ \<Rightarrow> [])"

definition extract_text_from_paragraph :: "pylib \<Rightarrow> (pystr \<times> pyval) list \<Rightarrow> pyerr + pystr" where
  "extract_text_from_paragraph L paragraph =
     and_then (py_iter (dict_get paragraph ''inlines'' (PList [])))
       (\<lambda>inlines. Inr (concat (map (inline_text L) inlines)))"

definition analyze_kpi_item :: "pylib \<Rightarrow> pyval \<Rightarrow> doc_stats \<Rightarrow> pyerr + doc_stats" where
  \<comment> \<open>the body of \<^verbatim>\<open>for kpi in kpis\<close>: \<^verbatim>\<open>kpi.get\<close> exists on a dict only\<close>
  "analyze_kpi_item L kpi st =
     (case kpi of
        PDict d \<Rightarrow>
          Inr (st\<lparr>max_kpi_value_length :=
                 max (max_kpi_value_length st)
                     (int (length (py_str L (dict_get d ''value'' (PStr [])))))\<rparr>)
      | _ \<Rightarrow> Inl AttributeError)"

definition analyze_callout_block :: "pylib \<Rightarrow> pyval \<Rightarrow> doc_stats \<Rightarrow> pyerr + doc_stats" where
  \<comment> \<open>the body of \<^verbatim>\<open>for cb in callout_blocks\<close>\<close>
  "analyze_callout_block L cb st =
     (case cb of
        PDict d \<Rightarrow>
          if dict_get d ''type'' PNone = PStr (lit ''paragraph'')
          then and_then (extract_text_from_paragraph L d)
                 (\<lambda>text. Inr (if length text > 200 then st\<lparr>has_long_text := True\<rparr> else st))
          else Inr st
      | _ \<Rightarrow> Inr st)"

definition table_columns :: "(pystr \<times> pyval) list \<Rightarrow> pyerr + nat" where
  \<comment> \<open>the column count of a table block: the first row's cells, else the headers\<close>
  "table_columns block =
     (let headers = dict_get block ''headers'' (PList []);
          rows = dict_get block ''rows'' (PList [])
      in if truthy rows
         then and_then (py_first rows)
                (\<lambda>row0. case row0 of
                           PDict r \<Rightarrow> py_len (dict_get r ''cells'' (PList []))
                         | _ \<Rightarrow> py_len headers)
         else py_len headers)"

definition analyze_typed :: "pylib \<Rightarrow> (pystr \<times> pyval) list \<Rightarrow> doc_stats \<Rightarrow> pyerr + doc_stats" where
  \<comment> \<open>the \<^verbatim>\<open>if\<close>/\<^verbatim>\<open>elif\<close> chain of \<^verbatim>\<open>_analyze_block\<close> on \<^verbatim>\<open>node_type\<close>\<close>
  "analyze_typed L block st =
     (let node_type = dict_get block ''type'' PNone in
      if node_type = PStr (lit ''kpiGrid'') then
        (let kpis = dict_get block ''items'' (PList []) in
         and_then (py_len kpis) (\<lambda>n.
         and_then (py_iter kpis) (\<lambda>items.
           for_each (analyze_kpi_item L) items (st\<lparr>kpi_count := kpi_count st + int n\<rparr>))))
      else if node_type = PStr (lit ''table'') then
        (let st1 = st\<lparr>table_count := table_count st + 1\<rparr> in
         and_then (table_columns block) (\<lambda>cols.
         and_then (py_len (dict_get block ''rows'' (PList []))) (\<lambda>nrows.
           Inr (st1\<lparr>max_table_columns := max (max_table_columns st1) (int cols),
                    max_table_rows := max (max_table_rows st1) (int nrows)\<rparr>))))
      else if node_type = PStr (lit ''chart'') \<or> node_type = PStr (lit ''widget'') then
        Inr (st\<lparr>chart_count := chart_count st + 1\<rparr>)
      else if node_type = PStr (lit ''callout'') then
        and_then (py_iter (dict_get block ''blocks'' (PList [])))
          (\<lambda>cbs. for_each (analyze_callout_block L) cbs
                   (st\<lparr>callout_count := callout_count st + 1\<rparr>))
      else if node_type = PStr (lit ''paragraph'') then
        and_then (extract_text_from_paragraph L block)
          (\<lambda>text. let st1 = st\<lparr>total_content_length := total_content_length st + int (length text)\<rparr>
                   in Inr (if length text > 500 then st1\<lparr>has_long_text := True\<rparr> else st1))
      else Inr st)"


text \<open>
  \<^verbatim>\<open>_analyze_block\<close> recurses into the list a block keeps under \<^verbatim>\<open>blocks\<close>, and
  \<^verbatim>\<open>_analyze_chapter\<close> into the children of a chapter. Every item such a loop visits
  is no larger than the dict it was found in, which is what makes both recursions end.
\<close>

lemma size_map_of: "map_of d k = Some v \<Longrightarrow> size v < size (PDict d)"
  by (induction d) (auto split: if_splits)

lemma size_list_member: "x \<in> set xs \<Longrightarrow> size x < size (PList xs)"
  by (induction xs) auto

lemma size_py_iter: "py_iter v = Inr xs \<Longrightarrow> x \<in> set xs \<Longrightarrow> size x \<le> size v"
  by (cases v) (auto dest: size_list_member less_imp_le)

lemma size_iter_dict_get:
  assumes "py_iter (dict_get d k (PList [])) = Inr xs" and "x \<in> set xs"
  shows "size x < size (PDict d)"
proof (cases "map_of d (lit k)")
  case None
  with assms show ?thesis by (simp add: dict_get_def)
next
  case (Some v)
  with assms have "size x \<le> size v" by (auto simp: dict_get_def dest: size_py_iter)
  also have "size v < size (PDict d)" using Some by (rule size_map_of)
  finally show ?thesis .
qed

function analyze_block :: "pylib \<Rightarrow> pyval \<Rightarrow> doc_stats \<Rightarrow> pyerr + doc_stats" where
  "analyze_block L block st =
     (case block of
        PDict d \<Rightarrow>
          and_then (analyze_typed L d st) (\<lambda>st1.
            let nested_blocks = dict_get d ''blocks'' (PList []) in
            if truthy nested_blocks
            then and_then (py_iter nested_blocks)
                   (\<lambda>nested. for_each (analyze_block L) nested st1)
            else Inr st1)
      | _ \<Rightarrow> Inr st)"
  by pat_completeness auto
termination
  by (relation "measure (\<lambda>(L, block, st). size block)")
     (auto dest: size_iter_dict_get)

function analyze_chapter :: "pylib \<Rightarrow> pyval \<Rightarrow> doc_stats \<Rightarrow> pyerr + doc_stats" where
  "analyze_chapter L chapter st =
     (case chapter of
        PDict d \<Rightarrow>
          and_then (py_iter (dict_get d ''blocks'' (PList []))) (\<lambda>blocks.
          and_then (for_each (analyze_block L) blocks st) (\<lambda>st1.
          and_then (py_iter (dict_get d ''children'' (PList []))) (\<lambda>children.
            for_each (\<lambda>child s. if is_dict child then analyze_chapter L child s else Inr s)
              children st1)))
      | _ \<Rightarrow> Inl AttributeError)"
  by pat_completeness auto
termination
  by (relation "measure (\<lambda>(L, chapter, st). size chapter)")
     (auto dest: size_iter_dict_get)

definition analyze_document :: "pylib \<Rightarrow> pyval \<Rightarrow> pyerr + doc_stats" where
  "analyze_document L document_ir =
     (case document_ir of
        PDict d \<Rightarrow>
          (let chapters = dict_get d ''chapters'' (PList []);
               chapters = (if truthy chapters then chapters
                           else dict_get d ''sections'' (PList []))
           in and_then (py_iter chapters)
                (\<lambda>cs. for_each (analyze_chapter L) cs initial_stats))
      | _ \<Rightarrow> Inl AttributeError)"

section \<open>Text Metrics Estimator and Font-Size Solver\<close>

text \<open>
  Widths are Python floats in the source; here they are exact rationals, so a
  comparison of a width with a budget is the comparison of the exact values. The
  characters of ASCII are classified as Python classifies them; for the others the
  Unicode tables are consulted through \<^typ>\<open>pylib\<close>.
\<close>

datatype char_class = Chinese | English | Number | Symbol

fun CHAR_WIDTH_FACTOR :: "char_class \<Rightarrow> rat" where
  "CHAR_WIDTH_FACTOR Chinese = 1"
| "CHAR_WIDTH_FACTOR English = 55 / 100"
| "CHAR_WIDTH_FACTOR Number = 6 / 10"
| "CHAR_WIDTH_FACTOR Symbol = 4 / 10"

definition py_isalpha :: "pylib \<Rightarrow> nat \<Rightarrow> bool" where
  "py_isalpha L c =
     (if c < 128 then (65 \<le> c \<and> c \<le> 90) \<or> (97 \<le> c \<and> c \<le> 122) else isalpha_ext L c)"

definition py_isdigit :: "pylib \<Rightarrow> nat \<Rightarrow> bool" where
  "py_isdigit L c = (if c < 128 then 48 \<le> c \<and> c \<le> 57 else isdigit_ext L c)"

definition classify :: "pylib \<Rightarrow> nat \<Rightarrow> char_class" where
  \<comment> \<open>the branch of \<^verbatim>\<open>_estimate_text_width\<close> a character takes; U+4E00 = 19968, U+9FFF = 40959\<close>
  "classify L c =
     (if 19968 \<le> c \<and> c \<le> 40959 then Chinese
      else if py_isalpha L c then English
      else if py_isdigit L c then Number
      else Symbol)"

definition estimate_text_width :: "pylib \<Rightarrow> pystr \<Rightarrow> int \<Rightarrow> rat" where
  "estimate_text_width L text font_size =
     (if text = [] then 0
      else foldl (\<lambda>width c. width + of_int font_size * CHAR_WIDTH_FACTOR (classify L c)) 0 text)"

definition check_text_overflow :: "pylib \<Rightarrow> pystr \<Rightarrow> int \<Rightarrow> int \<Rightarrow> bool" where
  "check_text_overflow L text font_size max_width =
     (estimate_text_width L text font_size > of_int max_width)"

text \<open>
  The loop \<^verbatim>\<open>for font_size in range(max_font_size, min_font_size - 1, -1)\<close> of
  \<^verbatim>\<open>_calculate_safe_font_size\<close>, leaving at the first size that does not overflow.
\<close>

function first_fitting :: "(int \<Rightarrow> bool) \<Rightarrow> int \<Rightarrow> int \<Rightarrow> int option" where
  "first_fitting overflows font_size min_font_size =
     (if font_size < min_font_size then None
      else if \<not> overflows font_size then Some font_size
      else first_fitting overflows (font_size - 1) min_font_size)"
  by pat_completeness auto
termination
  by (relation "measure (\<lambda>(overflows, font_size, min_font_size).
                  nat (font_size + 1 - min_font_size))") auto

declare first_fitting.simps [simp del]

definition calculate_safe_font_size ::
    "pylib \<Rightarrow> pystr \<Rightarrow> int \<Rightarrow> int \<Rightarrow> int \<Rightarrow> int \<times> bool" where
  "calculate_safe_font_size L text max_width min_font_size max_font_size =
     (if text = [] then (max_font_size, False)
      else case first_fitting (\<lambda>fs. check_text_overflow L text fs max_width)
                  max_font_size min_font_size of
             Some font_size \<Rightarrow> (font_size, font_size < max_font_size)
           | None \<Rightarrow> (min_font_size, True))"

text \<open>A runtime that knows ASCII only, for evaluating the definitions on concrete inputs.\<close>

definition ascii_lib :: pylib where
  "ascii_lib = \<lparr> isalpha_ext = (\<lambda>c. False), isdigit_ext = (\<lambda>c. False),
                 repr_ext = (\<lambda>v. []) \<rparr>"


section \<open>Layout configuration\<close>

text \<open>
  The six dataclasses of sub-configurations. A field is named after its class and its
  name in the source, since several classes have a \<^verbatim>\<open>padding\<close>, a \<^verbatim>\<open>line_height\<close>
  or a \<^verbatim>\<open>font_size_title\<close>. Fields hold the type their annotation declares; the
  float \<^verbatim>\<open>line_height\<close> is never computed with, and is carried as a rational.
\<close>

record page_layout =
  page_font_size_base :: int
  page_font_size_h1 :: int
  page_font_size_h2 :: int
  page_font_size_h3 :: int
  page_font_size_h4 :: int
  page_line_height :: rat
  page_paragraph_spacing :: int
  page_section_spacing :: int
  page_page_padding :: int
  page_max_content_width :: int

record kpi_card_layout =
  kpi_font_size_value :: int
  kpi_font_size_label :: int
  kpi_font_size_change :: int
  kpi_padding :: int
  kpi_min_height :: int
  kpi_value_max_length :: int

record callout_layout =
  callout_font_size_title :: int
  callout_font_size_content :: int
  callout_padding :: int
  callout_line_height :: rat
  callout_max_width :: pystr

record table_layout =
  table_font_size_header :: int
  table_font_size_body :: int
  table_cell_padding :: int
  table_max_cell_width :: int
  table_overflow_strategy :: pystr

record chart_layout =
  chart_font_size_title :: int
  chart_font_size_label :: int
  chart_min_height :: int
  chart_max_height :: int
  chart_padding :: int

record grid_layout =
  grid_columns :: int
  grid_gap :: int
  grid_responsive_breakpoint :: int

text \<open>The constructors called without arguments: the declared defaults.\<close>

definition PageLayout :: page_layout where
  "PageLayout = \<lparr> page_font_size_base = 14, page_font_size_h1 = 28, page_font_size_h2 = 24,
     page_font_size_h3 = 20, page_font_size_h4 = 16, page_line_height = 16 / 10,
     page_paragraph_spacing = 16, page_section_spacing = 32, page_page_padding = 40,
     page_max_content_width = 800 \<rparr>"

definition KPICardLayout :: kpi_card_layout where
  "KPICardLayout = \<lparr> kpi_font_size_value = 32, kpi_font_size_label = 14,
     kpi_font_size_change = 13, kpi_padding = 20, kpi_min_height = 120,
     kpi_value_max_length = 10 \<rparr>"

definition CalloutLayout :: callout_layout where
  "CalloutLayout = \<lparr> callout_font_size_title = 16, callout_font_size_content = 14,
     callout_padding = 20, callout_line_height = 16 / 10, callout_max_width = lit ''100%'' \<rparr>"

definition TableLayout :: table_layout where
  "TableLayout = \<lparr> table_font_size_header = 13, table_font_size_body = 12,
     table_cell_padding = 12, table_max_cell_width = 200,
     table_overflow_strategy = lit ''wrap'' \<rparr>"

definition ChartLayout :: chart_layout where
  "ChartLayout = \<lparr> chart_font_size_title = 16, chart_font_size_label = 12,
     chart_min_height = 300, chart_max_height = 600, chart_padding = 20 \<rparr>"

definition GridLayout :: grid_layout where
  "GridLayout = \<lparr> grid_columns = 2, grid_gap = 20, grid_responsive_breakpoint = 768 \<rparr>"

subsection \<open>Objects and references\<close>

text \<open>
  A \<^verbatim>\<open>PDFLayoutConfig\<close> is an object that refers to six sub-configuration objects, and
  all seven are mutable. Which object an assignment reaches matters for the caller's
  baseline, so objects live in a store and are reached through references: one store
  per class, and one counter that hands out fresh references.
\<close>

type_synonym ref = nat

record pdf_layout_config =
  page :: ref
  kpi_card :: ref
  callout :: ref
  table :: ref
  chart :: ref
  grid :: ref
  auto_adjust_font_size :: bool
  auto_adjust_grid_columns :: bool
  prevent_orphan_headers :: bool
  optimize_for_print :: bool

record heap =
  next_ref :: ref
  page_objs :: "ref \<Rightarrow> page_layout"
  kpi_card_objs :: "ref \<Rightarrow> kpi_card_layout"
  callout_objs :: "ref \<Rightarrow> callout_layout"
  table_objs :: "ref \<Rightarrow> table_layout"
  chart_objs :: "ref \<Rightarrow> chart_layout"
  grid_objs :: "ref \<Rightarrow> grid_layout"
  config_objs :: "ref \<Rightarrow> pdf_layout_config"

text \<open>Constructing an object allocates it at the next free reference.\<close>

definition new_page :: "page_layout \<Rightarrow> heap \<Rightarrow> ref \<times> heap" where
  "new_page v h = (next_ref h,
     h\<lparr>page_objs := (page_objs h)(next_ref h := v), next_ref := next_ref h + 1\<rparr>)"

definition new_kpi_card :: "kpi_card_layout \<Rightarrow> heap \<Rightarrow> ref \<times> heap" where
  "new_kpi_card v h = (next_ref h,
     h\<lparr>kpi_card_objs := (kpi_card_objs h)(next_ref h := v), next_ref := next_ref h + 1\<rparr>)"

definition new_callout :: "callout_layout \<Rightarrow> heap \<Rightarrow> ref \<times> heap" where
  "new_callout v h = (next_ref h,
     h\<lparr>callout_objs := (callout_objs h)(next_ref h := v), next_ref := next_ref h + 1\<rparr>)"

definition new_table :: "table_layout \<Rightarrow> heap \<Rightarrow> ref \<times> heap" where
  "new_table v h = (next_ref h,
     h\<lparr>table_objs := (table_objs h)(next_ref h := v), next_ref := next_ref h + 1\<rparr>)"

definition new_chart :: "chart_layout \<Rightarrow> heap \<Rightarrow> ref \<times> heap" where
  "new_chart v h = (next_ref h,
     h\<lparr>chart_objs := (chart_objs h)(next_ref h := v), next_ref := next_ref h + 1\<rparr>)"

definition new_grid :: "grid_layout \<Rightarrow> heap \<Rightarrow> ref \<times> heap" where
  "new_grid v h = (next_ref h,
     h\<lparr>grid_objs := (grid_objs h)(next_ref h := v), next_ref := next_ref h + 1\<rparr>)"

definition new_config :: "pdf_layout_config \<Rightarrow> heap \<Rightarrow> ref \<times> heap" where
  "new_config v h = (next_ref h,
     h\<lparr>config_objs := (config_objs h)(next_ref h := v), next_ref := next_ref h + 1\<rparr>)"

text \<open>Attribute assignment \<^verbatim>\<open>obj.field = value\<close> on the object a reference points to.\<close>

definition set_page :: "ref \<Rightarrow> (page_layout \<Rightarrow> page_layout) \<Rightarrow> heap \<Rightarrow> heap" where
  "set_page a f h = h\<lparr>page_objs := (page_objs h)(a := f (page_objs h a))\<rparr>"

definition set_kpi_card :: "ref \<Rightarrow> (kpi_card_layout \<Rightarrow> kpi_card_layout) \<Rightarrow> heap \<Rightarrow> heap" where
  "set_kpi_card a f h = h\<lparr>kpi_card_objs := (kpi_card_objs h)(a := f (kpi_card_objs h a))\<rparr>"

definition set_callout :: "ref \<Rightarrow> (callout_layout \<Rightarrow> callout_layout) \<Rightarrow> heap \<Rightarrow> heap" where
  "set_callout a f h = h\<lparr>callout_objs := (callout_objs h)(a := f (callout_objs h a))\<rparr>"

definition set_table :: "ref \<Rightarrow> (table_layout \<Rightarrow> table_layout) \<Rightarrow> heap \<Rightarrow> heap" where
  "set_table a f h = h\<lparr>table_objs := (table_objs h)(a := f (table_objs h a))\<rparr>"

definition set_grid :: "ref \<Rightarrow> (grid_layout \<Rightarrow> grid_layout) \<Rightarrow> heap \<Rightarrow> heap" where
  "set_grid a f h = h\<lparr>grid_objs := (grid_objs h)(a := f (grid_objs h a))\<rparr>"



section \<open>Config Adjustment Engine\<close>

text \<open>
  The descriptions the engine appends to \<^verbatim>\<open>optimization_log\<close> are formatted strings
  with fixed wording; a description is modelled by its kind and the numbers it
  interpolates, in the order the source interpolates them:
  \<^item> \<open>KpiValueTooLong n size\<close>: the KPI value has \<open>n\<close> characters and the font size was
    lowered to \<open>size\<close> to prevent overflow;
  \<^item> \<open>KpiValueLong n size\<close>: the KPI value has \<open>n\<close> characters and the font size was set
    to \<open>size\<close> as a precaution;
  \<^item> \<open>ManyKpiCards n\<close>, \<open>MediumKpiCards n\<close>, \<open>FewKpiCards n\<close>: \<open>n\<close> KPI cards, laid out in
    three columns, two columns, one column;
  \<^item> \<open>VeryWideTable n\<close>, \<open>WideTable n\<close>, \<open>MediumTable n\<close>: a table of \<open>n\<close> columns, with the
    three degrees of smaller fonts and padding;
  \<^item> \<open>LongTextDetected\<close>: line height and paragraph spacing were raised;
  \<^item> \<open>ManyBlocks n\<close>: \<open>n\<close> content blocks, the fonts of the page were lowered.
\<close>

datatype opt_msg =
    KpiValueTooLong int int
  | KpiValueLong int int
  | ManyKpiCards int
  | MediumKpiCards int
  | FewKpiCards int
  | VeryWideTable int
  | WideTable int
  | MediumTable int
  | LongTextDetected
  | ManyBlocks int

record optimizer =
  config :: ref
  optimization_log :: "opt_msg list"

definition create_default_config :: "heap \<Rightarrow> ref \<times> heap" where
  "create_default_config h =
     (let (p, h) = new_page PageLayout h;
          (k, h) = new_kpi_card KPICardLayout h;
          (c, h) = new_callout CalloutLayout h;
          (t, h) = new_table TableLayout h;
          (ch, h) = new_chart ChartLayout h;
          (g, h) = new_grid GridLayout h
      in new_config \<lparr> page = p, kpi_card = k, callout = c, table = t, chart = ch, grid = g,
           auto_adjust_font_size = True, auto_adjust_grid_columns = True,
           prevent_orphan_headers = True, optimize_for_print = True \<rparr> h)"

definition init_optimizer :: "ref option \<Rightarrow> heap \<Rightarrow> optimizer \<times> heap" where
  \<comment> \<open>\<^verbatim>\<open>__init__\<close>: \<^verbatim>\<open>config or self._create_default_config()\<close>\<close>
  "init_optimizer cfg h =
     (case cfg of
        Some r \<Rightarrow> (\<lparr> config = r, optimization_log = [] \<rparr>, h)
      | None \<Rightarrow> (let (r, h) = create_default_config h
                 in (\<lparr> config = r, optimization_log = [] \<rparr>, h)))"

definition kpi_card_width :: int where
  "kpi_card_width = (800 - 20) div 2 - 40"

definition detect_kpi_overflow_issues :: "pylib \<Rightarrow> doc_stats \<Rightarrow> heap \<Rightarrow> optimizer \<Rightarrow> (int \<times> int) list" where
  \<comment> \<open>an issue is the pair of numbers its text interpolates; the sample is
      \<^verbatim>\<open>'1' * n\<close> followed by U+4EBF U+5143\<close>
  "detect_kpi_overflow_issues L stats h self =
     (let max_kpi_length = max_kpi_value_length stats in
      if max_kpi_length > 0 then
        (let sample_text = replicate (nat max_kpi_length) 49 @ [20159, 20803];
             current_font_size = kpi_font_size_value (kpi_card_objs h (kpi_card (config_objs h (config self))))
         in if check_text_overflow L sample_text current_font_size kpi_card_width
            then [(max_kpi_length, current_font_size)] else [])
      else [])"

definition copy_config :: "ref \<Rightarrow> heap \<Rightarrow> ref \<times> heap" where
  \<comment> \<open>the constructor call that opens \<^verbatim>\<open>_adjust_config_based_on_stats\<close>:
      each sub-configuration is rebuilt from \<^verbatim>\<open>asdict\<close> of the baseline's\<close>
  "copy_config b h =
     (let (p, h) = new_page (page_objs h (page (config_objs h b))) h;
          (k, h) = new_kpi_card (kpi_card_objs h (kpi_card (config_objs h b))) h;
          (c, h) = new_callout (callout_objs h (callout (config_objs h b))) h;
          (t, h) = new_table (table_objs h (table (config_objs h b))) h;
          (ch, h) = new_chart (chart_objs h (chart (config_objs h b))) h;
          (g, h) = new_grid (grid_objs h (grid (config_objs h b))) h
      in new_config \<lparr> page = p, kpi_card = k, callout = c, table = t, chart = ch, grid = g,
           auto_adjust_font_size = auto_adjust_font_size (config_objs h b),
           auto_adjust_grid_columns = auto_adjust_grid_columns (config_objs h b),
           prevent_orphan_headers = prevent_orphan_headers (config_objs h b),
           optimize_for_print = optimize_for_print (config_objs h b) \<rparr> h)"

text \<open>
  The five rule blocks of \<^verbatim>\<open>_adjust_config_based_on_stats\<close>, in the order of the source.
  Each one works on the store and on \<^verbatim>\<open>self.optimization_log\<close>; \<open>cfg\<close> is the reference
  held by the local variable \<^verbatim>\<open>config\<close>.
\<close>

definition adjust_kpi_font :: "pylib \<Rightarrow> doc_stats \<Rightarrow> ref \<Rightarrow> heap \<times> opt_msg list \<Rightarrow> heap \<times> opt_msg list" where
  "adjust_kpi_font L stats cfg = (\<lambda>(h, log).
     if max_kpi_value_length stats > 0 then
       (let sample_text = replicate (nat (max_kpi_value_length stats)) 57;
            (safe_font_size, needs_adjustment) =
               calculate_safe_font_size L sample_text kpi_card_width 18 32
        in if needs_adjustment then
             (set_kpi_card (kpi_card (config_objs h cfg))
                (\<lambda>k. k\<lparr>kpi_font_size_value := safe_font_size\<rparr>) h,
              log @ [KpiValueTooLong (max_kpi_value_length stats) safe_font_size])
           else if max_kpi_value_length stats > 10 then
             (let h' = set_kpi_card (kpi_card (config_objs h cfg))
                         (\<lambda>k. k\<lparr>kpi_font_size_value := min 28 safe_font_size\<rparr>) h
              in (h', log @ [KpiValueLong (max_kpi_value_length stats)
                    (kpi_font_size_value (kpi_card_objs h' (kpi_card (config_objs h' cfg))))]))
           else (h, log))
     else (h, log))"

definition adjust_grid :: "doc_stats \<Rightarrow> ref \<Rightarrow> heap \<times> opt_msg list \<Rightarrow> heap \<times> opt_msg list" where
  "adjust_grid stats cfg = (\<lambda>(h, log).
     if kpi_count stats > 6 then
       (let h = set_grid (grid (config_objs h cfg)) (\<lambda>g. g\<lparr>grid_columns := 3\<rparr>) h;
            h = set_kpi_card (kpi_card (config_objs h cfg)) (\<lambda>k. k\<lparr>kpi_min_height := 100\<rparr>) h;
            h = set_kpi_card (kpi_card (config_objs h cfg)) (\<lambda>k. k\<lparr>kpi_padding := 16\<rparr>) h
        in (h, log @ [ManyKpiCards (kpi_count stats)]))
     else if kpi_count stats > 4 then
       (let h = set_grid (grid (config_objs h cfg)) (\<lambda>g. g\<lparr>grid_columns := 2\<rparr>) h;
            h = set_kpi_card (kpi_card (config_objs h cfg)) (\<lambda>k. k\<lparr>kpi_padding := 18\<rparr>) h
        in (h, log @ [MediumKpiCards (kpi_count stats)]))
     else if kpi_count stats \<le> 2 then
       (let h = set_grid (grid (config_objs h cfg)) (\<lambda>g. g\<lparr>grid_columns := 1\<rparr>) h;
            h = set_kpi_card (kpi_card (config_objs h cfg)) (\<lambda>k. k\<lparr>kpi_padding := 24\<rparr>) h
        in (h, log @ [FewKpiCards (kpi_count stats)]))
     else (h, log))"

definition adjust_table :: "doc_stats \<Rightarrow> ref \<Rightarrow> heap \<times> opt_msg list \<Rightarrow> heap \<times> opt_msg list" where
  "adjust_table stats cfg = (\<lambda>(h, log).
     if max_table_columns stats > 8 then
       (let h = set_table (table (config_objs h cfg)) (\<lambda>t. t\<lparr>table_font_size_header := 10\<rparr>) h;
            h = set_table (table (config_objs h cfg)) (\<lambda>t. t\<lparr>table_font_size_body := 9\<rparr>) h;
            h = set_table (table (config_objs h cfg)) (\<lambda>t. t\<lparr>table_cell_padding := 6\<rparr>) h
        in (h, log @ [VeryWideTable (max_table_columns stats)]))
     else if max_table_columns stats > 6 then
       (let h = set_table (table (config_objs h cfg)) (\<lambda>t. t\<lparr>table_font_size_header := 11\<rparr>) h;
            h = set_table (table (config_objs h cfg)) (\<lambda>t. t\<lparr>table_font_size_body := 10\<rparr>) h;
            h = set_table (table (config_objs h cfg)) (\<lambda>t. t\<lparr>table_cell_padding := 8\<rparr>) h
        in (h, log @ [WideTable (max_table_columns stats)]))
     else if max_table_columns stats > 4 then
       (let h = set_table (table (config_objs h cfg)) (\<lambda>t. t\<lparr>table_font_size_header := 12\<rparr>) h;
            h = set_table (table (config_objs h cfg)) (\<lambda>t. t\<lparr>table_font_size_body := 11\<rparr>) h;
            h = set_table (table (config_objs h cfg)) (\<lambda>t. t\<lparr>table_cell_padding := 10\<rparr>) h
        in (h, log @ [MediumTable (max_table_columns stats)]))
     else (h, log))"

definition adjust_long_text :: "doc_stats \<Rightarrow> ref \<Rightarrow> heap \<times> opt_msg list \<Rightarrow> heap \<times> opt_msg list" where
  "adjust_long_text stats cfg = (\<lambda>(h, log).
     if has_long_text stats then
       (let h = set_page (page (config_objs h cfg)) (\<lambda>p. p\<lparr>page_line_height := 18 / 10\<rparr>) h;
            h = set_callout (callout (config_objs h cfg)) (\<lambda>c. c\<lparr>callout_line_height := 18 / 10\<rparr>) h;
            h = set_page (page (config_objs h cfg)) (\<lambda>p. p\<lparr>page_paragraph_spacing := 18\<rparr>) h
        in (h, log @ [LongTextDetected]))
     else (h, log))"

definition adjust_many_blocks :: "doc_stats \<Rightarrow> ref \<Rightarrow> heap \<times> opt_msg list \<Rightarrow> heap \<times> opt_msg list" where
  "adjust_many_blocks stats cfg = (\<lambda>(h, log).
     let total_blocks = kpi_count stats + table_count stats + chart_count stats + callout_count stats
     in if total_blocks > 20 then
          (let h = set_page (page (config_objs h cfg)) (\<lambda>p. p\<lparr>page_font_size_base := 13\<rparr>) h;
               h = set_page (page (config_objs h cfg)) (\<lambda>p. p\<lparr>page_font_size_h2 := 22\<rparr>) h;
               h = set_page (page (config_objs h cfg)) (\<lambda>p. p\<lparr>page_font_size_h3 := 18\<rparr>) h
           in (h, log @ [ManyBlocks total_blocks]))
        else (h, log))"

definition adjust_config_based_on_stats ::
    "pylib \<Rightarrow> doc_stats \<Rightarrow> heap \<times> optimizer \<Rightarrow> ref \<times> heap \<times> optimizer" where
  \<comment> \<open>the issues found by \<^verbatim>\<open>_detect_kpi_overflow_issues\<close> go to the logger only\<close>
  "adjust_config_based_on_stats L stats = (\<lambda>(h, self).
     let (cfg, h) = copy_config (config self) h;
         overflow_issues = detect_kpi_overflow_issues L stats h self;
         (h, log) = adjust_kpi_font L stats cfg (h, optimization_log self);
         (h, log) = adjust_grid stats cfg (h, log);
         (h, log) = adjust_table stats cfg (h, log);
         (h, log) = adjust_long_text stats cfg (h, log);
         (h, log) = adjust_many_blocks stats cfg (h, log)
     in (cfg, h, self\<lparr>optimization_log := log\<rparr>))"



section \<open>Config Store\<close>

text \<open>
  The configuration a reference stands for, with the sub-configurations read through
  their references: what the generated \<^verbatim>\<open>__eq__\<close> of the dataclasses compares.
\<close>

record layout_value =
  v_page :: page_layout
  v_kpi_card :: kpi_card_layout
  v_callout :: callout_layout
  v_table :: table_layout
  v_chart :: chart_layout
  v_grid :: grid_layout
  v_auto_adjust_font_size :: bool
  v_auto_adjust_grid_columns :: bool
  v_prevent_orphan_headers :: bool
  v_optimize_for_print :: bool

definition config_value :: "heap \<Rightarrow> ref \<Rightarrow> layout_value" where
  "config_value h r =
     (let c = config_objs h r in
      \<lparr> v_page = page_objs h (page c), v_kpi_card = kpi_card_objs h (kpi_card c),
        v_callout = callout_objs h (callout c), v_table = table_objs h (table c),
        v_chart = chart_objs h (chart c), v_grid = grid_objs h (grid c),
        v_auto_adjust_font_size = auto_adjust_font_size c,
        v_auto_adjust_grid_columns = auto_adjust_grid_columns c,
        v_prevent_orphan_headers = prevent_orphan_headers c,
        v_optimize_for_print = optimize_for_print c \<rparr>)"

subsection \<open>\<^verbatim>\<open>to_dict\<close>\<close>

definition asdict_page :: "page_layout \<Rightarrow> pyval" where
  "asdict_page p = PDict
     [(lit ''font_size_base'', PInt (page_font_size_base p)),
      (lit ''font_size_h1'', PInt (page_font_size_h1 p)),
      (lit ''font_size_h2'', PInt (page_font_size_h2 p)),
      (lit ''font_size_h3'', PInt (page_font_size_h3 p)),
      (lit ''font_size_h4'', PInt (page_font_size_h4 p)),
      (lit ''line_height'', PFloat (page_line_height p)),
      (lit ''paragraph_spacing'', PInt (page_paragraph_spacing p)),
      (lit ''section_spacing'', PInt (page_section_spacing p)),
      (lit ''page_padding'', PInt (page_page_padding p)),
      (lit ''max_content_width'', PInt (page_max_content_width p))]"

definition asdict_kpi_card :: "kpi_card_layout \<Rightarrow> pyval" where
  "asdict_kpi_card k = PDict
     [(lit ''font_size_value'', PInt (kpi_font_size_value k)),
      (lit ''font_size_label'', PInt (kpi_font_size_label k)),
      (lit ''font_size_change'', PInt (kpi_font_size_change k)),
      (lit ''padding'', PInt (kpi_padding k)),
      (lit ''min_height'', PInt (kpi_min_height k)),
      (lit ''value_max_length'', PInt (kpi_value_max_length k))]"

definition asdict_callout :: "callout_layout \<Rightarrow> pyval" where
  "asdict_callout c = PDict
     [(lit ''font_size_title'', PInt (callout_font_size_title c)),
      (lit ''font_size_content'', PInt (callout_font_size_content c)),
      (lit ''padding'', PInt (callout_padding c)),
      (lit ''line_height'', PFloat (callout_line_height c)),
      (lit ''max_width'', PStr (callout_max_width c))]"

definition asdict_table :: "table_layout \<Rightarrow> pyval" where
  "asdict_table t = PDict
     [(lit ''font_size_header'', PInt (table_font_size_header t)),
      (lit ''font_size_body'', PInt (table_font_size_body t)),
      (lit ''cell_padding'', PInt (table_cell_padding t)),
      (lit ''max_cell_width'', PInt (table_max_cell_width t)),
      (lit ''overflow_strategy'', PStr (table_overflow_strategy t))]"

definition asdict_chart :: "chart_layout \<Rightarrow> pyval" where
  "asdict_chart c = PDict
     [(lit ''font_size_title'', PInt (chart_font_size_title c)),
      (lit ''font_size_label'', PInt (chart_font_size_label c)),
      (lit ''min_height'', PInt (chart_min_height c)),
      (lit ''max_height'', PInt (chart_max_height c)),
      (lit ''padding'', PInt (chart_padding c))]"

definition asdict_grid :: "grid_layout \<Rightarrow> pyval" where
  "asdict_grid g = PDict
     [(lit ''columns'', PInt (grid_columns g)),
      (lit ''gap'', PInt (grid_gap g)),
      (lit ''responsive_breakpoint'', PInt (grid_responsive_breakpoint g))]"

definition to_dict :: "heap \<Rightarrow> ref \<Rightarrow> pyval" where
  "to_dict h self =
     (let c = config_objs h self in PDict
       [(lit ''page'', asdict_page (page_objs h (page c))),
        (lit ''kpi_card'', asdict_kpi_card (kpi_card_objs h (kpi_card c))),
        (lit ''callout'', asdict_callout (callout_objs h (callout c))),
        (lit ''table'', asdict_table (table_objs h (table c))),
        (lit ''chart'', asdict_chart (chart_objs h (chart c))),
        (lit ''grid'', asdict_grid (grid_objs h (grid c))),
        (lit ''auto_adjust_font_size'', PBool (auto_adjust_font_size c)),
        (lit ''auto_adjust_grid_columns'', PBool (auto_adjust_grid_columns c)),
        (lit ''prevent_orphan_headers'', PBool (prevent_orphan_headers c)),
        (lit ''optimize_for_print'', PBool (optimize_for_print c))])"

subsection \<open>\<^verbatim>\<open>from_dict\<close>\<close>

text \<open>
  \<^verbatim>\<open>PageLayout(**data['page'])\<close> and its siblings: the subscript raises on a value that
  is not a dict or lacks the key; the call raises \<^verbatim>\<open>TypeError\<close> on a keyword that is
  not a field, and a field that is not passed takes its default. Python stores whatever
  value it is given. The records here are typed, so a value of another type than the
  field's annotation has no counterpart: loading it is reported as \<open>IllTyped\<close>, which
  marks the edge of the model and is not a Python exception.
\<close>

datatype load_error = Raised pyerr | IllTyped

definition raising :: "pyerr + 'a \<Rightarrow> load_error + 'a" where
  "raising m = (case m of Inl e \<Rightarrow> Inl (Raised e) | Inr x \<Rightarrow> Inr x)"

definition bind_load :: "load_error + 'a \<Rightarrow> ('a \<Rightarrow> load_error + 'b) \<Rightarrow> load_error + 'b" where
  "bind_load m f = (case m of Inl e \<Rightarrow> Inl e | Inr x \<Rightarrow> f x)"

definition py_getitem :: "pyval \<Rightarrow> string \<Rightarrow> pyerr + pyval" where
  \<comment> \<open>\<^verbatim>\<open>v['key']\<close>\<close>
  "py_getitem v k =
     (case v of
        PDict d \<Rightarrow> (case map_of d (lit k) of None \<Rightarrow> Inl KeyError | Some x \<Rightarrow> Inr x)
      | _ \<Rightarrow> Inl TypeError)"

definition kwargs :: "string list \<Rightarrow> pyval \<Rightarrow> load_error + (pystr \<times> pyval) list" where
  \<comment> \<open>\<^verbatim>\<open>**v\<close> passed to a constructor with the given field names\<close>
  "kwargs names v =
     (case v of
        PDict d \<Rightarrow> if list_all (\<lambda>k. k \<in> set (map lit names)) (map fst d) then Inr d
                   else Inl (Raised TypeError)
      | _ \<Rightarrow> Inl (Raised TypeError))"

definition kw_int :: "(pystr \<times> pyval) list \<Rightarrow> string \<Rightarrow> int \<Rightarrow> load_error + int" where
  "kw_int d k dflt =
     (case map_of d (lit k) of None \<Rightarrow> Inr dflt | Some (PInt i) \<Rightarrow> Inr i | Some _ \<Rightarrow> Inl IllTyped)"

definition kw_float :: "(pystr \<times> pyval) list \<Rightarrow> string \<Rightarrow> rat \<Rightarrow> load_error + rat" where
  "kw_float d k dflt =
     (case map_of d (lit k) of None \<Rightarrow> Inr dflt | Some (PFloat r) \<Rightarrow> Inr r | Some _ \<Rightarrow> Inl IllTyped)"

definition kw_str :: "(pystr \<times> pyval) list \<Rightarrow> string \<Rightarrow> pystr \<Rightarrow> load_error + pystr" where
  "kw_str d k dflt =
     (case map_of d (lit k) of None \<Rightarrow> Inr dflt | Some (PStr s) \<Rightarrow> Inr s | Some _ \<Rightarrow> Inl IllTyped)"

definition kw_bool :: "(pystr \<times> pyval) list \<Rightarrow> string \<Rightarrow> bool \<Rightarrow> load_error + bool" where
  "kw_bool d k dflt =
     (case map_of d (lit k) of None \<Rightarrow> Inr dflt | Some (PBool b) \<Rightarrow> Inr b | Some _ \<Rightarrow> Inl IllTyped)"

definition page_of_kwargs :: "pyval \<Rightarrow> load_error + page_layout" where
  "page_of_kwargs v =
     bind_load (kwargs [''font_size_base'', ''font_size_h1'', ''font_size_h2'', ''font_size_h3'',
        ''font_size_h4'', ''line_height'', ''paragraph_spacing'', ''section_spacing'',
        ''page_padding'', ''max_content_width''] v) (\<lambda>d.
     bind_load (kw_int d ''font_size_base'' (page_font_size_base PageLayout)) (\<lambda>a.
     bind_load (kw_int d ''font_size_h1'' (page_font_size_h1 PageLayout)) (\<lambda>b.
     bind_load (kw_int d ''font_size_h2'' (page_font_size_h2 PageLayout)) (\<lambda>c.
     bind_load (kw_int d ''font_size_h3'' (page_font_size_h3 PageLayout)) (\<lambda>e.
     bind_load (kw_int d ''font_size_h4'' (page_font_size_h4 PageLayout)) (\<lambda>f.
     bind_load (kw_float d ''line_height'' (page_line_height PageLayout)) (\<lambda>g.
     bind_load (kw_int d ''paragraph_spacing'' (page_paragraph_spacing PageLayout)) (\<lambda>i.
     bind_load (kw_int d ''section_spacing'' (page_section_spacing PageLayout)) (\<lambda>j.
     bind_load (kw_int d ''page_padding'' (page_page_padding PageLayout)) (\<lambda>k.
     bind_load (kw_int d ''max_content_width'' (page_max_content_width PageLayout)) (\<lambda>l.
       Inr \<lparr> page_font_size_base = a, page_font_size_h1 = b, page_font_size_h2 = c,
             page_font_size_h3 = e, page_font_size_h4 = f, page_line_height = g,
             page_paragraph_spacing = i, page_section_spacing = j, page_page_padding = k,
             page_max_content_width = l \<rparr>)))))))))))"

definition kpi_card_of_kwargs :: "pyval \<Rightarrow> load_error + kpi_card_layout" where
  "kpi_card_of_kwargs v =
     bind_load (kwargs [''font_size_value'', ''font_size_label'', ''font_size_change'',
        ''padding'', ''min_height'', ''value_max_length''] v) (\<lambda>d.
     bind_load (kw_int d ''font_size_value'' (kpi_font_size_value KPICardLayout)) (\<lambda>a.
     bind_load (kw_int d ''font_size_label'' (kpi_font_size_label KPICardLayout)) (\<lambda>b.
     bind_load (kw_int d ''font_size_change'' (kpi_font_size_change KPICardLayout)) (\<lambda>c.
     bind_load (kw_int d ''padding'' (kpi_padding KPICardLayout)) (\<lambda>e.
     bind_load (kw_int d ''min_height'' (kpi_min_height KPICardLayout)) (\<lambda>f.
     bind_load (kw_int d ''value_max_length'' (kpi_value_max_length KPICardLayout)) (\<lambda>g.
       Inr \<lparr> kpi_font_size_value = a, kpi_font_size_label = b, kpi_font_size_change = c,
             kpi_padding = e, kpi_min_height = f, kpi_value_max_length = g \<rparr>)))))))"

definition callout_of_kwargs :: "pyval \<Rightarrow> load_error + callout_layout" where
  "callout_of_kwargs v =
     bind_load (kwargs [''font_size_title'', ''font_size_content'', ''padding'',
        ''line_height'', ''max_width''] v) (\<lambda>d.
     bind_load (kw_int d ''font_size_title'' (callout_font_size_title CalloutLayout)) (\<lambda>a.
     bind_load (kw_int d ''font_size_content'' (callout_font_size_content CalloutLayout)) (\<lambda>b.
     bind_load (kw_int d ''padding'' (callout_padding CalloutLayout)) (\<lambda>c.
     bind_load (kw_float d ''line_height'' (callout_line_height CalloutLayout)) (\<lambda>e.
     bind_load (kw_str d ''max_width'' (callout_max_width CalloutLayout)) (\<lambda>f.
       Inr \<lparr> callout_font_size_title = a, callout_font_size_content = b,
             callout_padding = c, callout_line_height = e, callout_max_width = f \<rparr>))))))"

definition table_of_kwargs :: "pyval \<Rightarrow> load_error + table_layout" where
  "table_of_kwargs v =
     bind_load (kwargs [''font_size_header'', ''font_size_body'', ''cell_padding'',
        ''max_cell_width'', ''overflow_strategy''] v) (\<lambda>d.
     bind_load (kw_int d ''font_size_header'' (table_font_size_header TableLayout)) (\<lambda>a.
     bind_load (kw_int d ''font_size_body'' (table_font_size_body TableLayout)) (\<lambda>b.
     bind_load (kw_int d ''cell_padding'' (table_cell_padding TableLayout)) (\<lambda>c.
     bind_load (kw_int d ''max_cell_width'' (table_max_cell_width TableLayout)) (\<lambda>e.
     bind_load (kw_str d ''overflow_strategy'' (table_overflow_strategy TableLayout)) (\<lambda>f.
       Inr \<lparr> table_font_size_header = a, table_font_size_body = b, table_cell_padding = c,
             table_max_cell_width = e, table_overflow_strategy = f \<rparr>))))))"

definition chart_of_kwargs :: "pyval \<Rightarrow> load_error + chart_layout" where
  "chart_of_kwargs v =
     bind_load (kwargs [''font_size_title'', ''font_size_label'', ''min_height'',
        ''max_height'', ''padding''] v) (\<lambda>d.
     bind_load (kw_int d ''font_size_title'' (chart_font_size_title ChartLayout)) (\<lambda>a.
     bind_load (kw_int d ''font_size_label'' (chart_font_size_label ChartLayout)) (\<lambda>b.
     bind_load (kw_int d ''min_height'' (chart_min_height ChartLayout)) (\<lambda>c.
     bind_load (kw_int d ''max_height'' (chart_max_height ChartLayout)) (\<lambda>e.
     bind_load (kw_int d ''padding'' (chart_padding ChartLayout)) (\<lambda>f.
       Inr \<lparr> chart_font_size_title = a, chart_font_size_label = b, chart_min_height = c,
             chart_max_height = e, chart_padding = f \<rparr>))))))"

definition grid_of_kwargs :: "pyval \<Rightarrow> load_error + grid_layout" where
  "grid_of_kwargs v =
     bind_load (kwargs [''columns'', ''gap'', ''responsive_breakpoint''] v) (\<lambda>d.
     bind_load (kw_int d ''columns'' (grid_columns GridLayout)) (\<lambda>a.
     bind_load (kw_int d ''gap'' (grid_gap GridLayout)) (\<lambda>b.
     bind_load (kw_int d ''responsive_breakpoint'' (grid_responsive_breakpoint GridLayout)) (\<lambda>c.
       Inr \<lparr> grid_columns = a, grid_gap = b, grid_responsive_breakpoint = c \<rparr>))))"

definition from_dict :: "pyval \<Rightarrow> heap \<Rightarrow> load_error + ref \<times> heap" where
  "from_dict data h =
     bind_load (raising (py_getitem data ''page'')) (\<lambda>pv. bind_load (page_of_kwargs pv) (\<lambda>pl.
     bind_load (raising (py_getitem data ''kpi_card'')) (\<lambda>kv. bind_load (kpi_card_of_kwargs kv) (\<lambda>kl.
     bind_load (raising (py_getitem data ''callout'')) (\<lambda>cv. bind_load (callout_of_kwargs cv) (\<lambda>cl.
     bind_load (raising (py_getitem data ''table'')) (\<lambda>tv. bind_load (table_of_kwargs tv) (\<lambda>tl.
     bind_load (raising (py_getitem data ''chart'')) (\<lambda>chv. bind_load (chart_of_kwargs chv) (\<lambda>chl.
     bind_load (raising (py_getitem data ''grid'')) (\<lambda>gv. bind_load (grid_of_kwargs gv) (\<lambda>gl.
     (case data of
        PDict d \<Rightarrow>
          bind_load (kw_bool d ''auto_adjust_font_size'' True) (\<lambda>f1.
          bind_load (kw_bool d ''auto_adjust_grid_columns'' True) (\<lambda>f2.
          bind_load (kw_bool d ''prevent_orphan_headers'' True) (\<lambda>f3.
          bind_load (kw_bool d ''optimize_for_print'' True) (\<lambda>f4.
            let (p, h) = new_page pl h;
                (k, h) = new_kpi_card kl h;
                (c, h) = new_callout cl h;
                (t, h) = new_table tl h;
                (ch, h) = new_chart chl h;
                (g, h) = new_grid gl h
            in Inr (new_config \<lparr> page = p, kpi_card = k, callout = c, table = t, chart = ch,
                      grid = g, auto_adjust_font_size = f1, auto_adjust_grid_columns = f2,
                      prevent_orphan_headers = f3, optimize_for_print = f4 \<rparr> h)))))
      | _ \<Rightarrow> Inl (Raised AttributeError))))))))))))))"

subsection \<open>Files\<close>

text \<open>
  A file holds the JSON document that \<^verbatim>\<open>json.dump\<close> wrote, and \<^verbatim>\<open>json.load\<close> gives it
  back: for the values of \<^typ>\<open>pyval\<close> the two are inverse, and the file system is a map
  from paths to such documents. Failures of the file system itself are not modelled.
\<close>

type_synonym files = "pystr \<Rightarrow> pyval option"

definition save_config :: "heap \<Rightarrow> optimizer \<Rightarrow> pystr \<Rightarrow> pyval \<Rightarrow> files \<Rightarrow> files" where
  \<comment> \<open>\<^verbatim>\<open>log_entry\<close> is \<^verbatim>\<open>None\<close> when the argument is left out\<close>
  "save_config h self path log_entry fs =
     (let data = [(lit ''config'', to_dict h (config self))];
          data = (if truthy log_entry then data @ [(lit ''optimization_log'', log_entry)]
                  else data)
      in fs(path \<mapsto> PDict data))"

definition load_config :: "files \<Rightarrow> pystr \<Rightarrow> heap \<Rightarrow> load_error + optimizer \<times> heap" where
  "load_config fs path h =
     (case fs path of
        None \<Rightarrow> Inr (init_optimizer None h)
      | Some data \<Rightarrow>
          bind_load (raising (py_getitem data ''config'')) (\<lambda>cd.
          bind_load (from_dict cd h) (\<lambda>(cfg, h). Inr (init_optimizer (Some cfg) h))))"


section \<open>One optimization run\<close>

record log_entry =
  timestamp :: pystr
  document_stats :: doc_stats
  optimizations :: "opt_msg list"
  final_config :: pyval

definition log_optimization ::
    "pystr \<Rightarrow> doc_stats \<Rightarrow> ref \<Rightarrow> heap \<times> optimizer \<Rightarrow> log_entry \<times> optimizer" where
  \<comment> \<open>\<open>now\<close> is the text of \<^verbatim>\<open>datetime.now().isoformat()\<close>\<close>
  "log_optimization now stats cfg = (\<lambda>(h, self).
     (\<lparr> timestamp = now, document_stats = stats, optimizations = optimization_log self,
        final_config = to_dict h cfg \<rparr>,
      self\<lparr>optimization_log := []\<rparr>))"

definition optimize_with_entry ::
    "pylib \<Rightarrow> pystr \<Rightarrow> pyval \<Rightarrow> heap \<times> optimizer \<Rightarrow> pyerr + (ref \<times> log_entry) \<times> heap \<times> optimizer" where
  \<comment> \<open>the body of \<^verbatim>\<open>optimize_for_document\<close>, keeping the entry \<^verbatim>\<open>_log_optimization\<close> returns\<close>
  "optimize_with_entry L now document_ir = (\<lambda>(h, self).
     and_then (analyze_document L document_ir) (\<lambda>stats.
       let (optimized_config, h, self) = adjust_config_based_on_stats L stats (h, self);
           (entry, self) = log_optimization now stats optimized_config (h, self)
       in Inr ((optimized_config, entry), h, self)))"

definition optimize_for_document ::
    "pylib \<Rightarrow> pystr \<Rightarrow> pyval \<Rightarrow> heap \<times> optimizer \<Rightarrow> pyerr + ref \<times> heap \<times> optimizer" where
  \<comment> \<open>the caller gets the optimized configuration; the entry is dropped\<close>
  "optimize_for_document L now document_ir s =
     and_then (optimize_with_entry L now document_ir s)
       (\<lambda>((optimized_config, entry), s'). Inr (optimized_config, s'))"

section \<open>Stylesheet Emitter\<close>

text \<open>
  \<^verbatim>\<open>generate_pdf_css\<close> is one formatted string: fixed text with a placeholder wherever a
  field of the configuration is printed. The model keeps the rule blocks and their
  declarations in the order of the source and leaves out comments and white space. A
  declaration value is a list of parts, fixed text or a field.
\<close>

datatype num_field =
    Page_font_size_base | Page_font_size_h1 | Page_font_size_h2 | Page_font_size_h3
  | Page_font_size_h4 | Page_line_height | Page_paragraph_spacing | Page_section_spacing
  | Page_page_padding | Page_max_content_width
  | Kpi_font_size_value | Kpi_font_size_label | Kpi_font_size_change | Kpi_padding
  | Kpi_min_height | Kpi_value_max_length
  | Callout_font_size_title | Callout_font_size_content | Callout_padding
  | Callout_line_height
  | Table_font_size_header | Table_font_size_body | Table_cell_padding
  | Table_max_cell_width
  | Chart_font_size_title | Chart_font_size_label | Chart_min_height | Chart_max_height
  | Chart_padding
  | Grid_columns | Grid_gap | Grid_responsive_breakpoint

fun field_value :: "layout_value \<Rightarrow> num_field \<Rightarrow> pyval" where
  "field_value c Page_font_size_base = PInt (page_font_size_base (v_page c))"
| "field_value c Page_font_size_h1 = PInt (page_font_size_h1 (v_page c))"
| "field_value c Page_font_size_h2 = PInt (page_font_size_h2 (v_page c))"
| "field_value c Page_font_size_h3 = PInt (page_font_size_h3 (v_page c))"
| "field_value c Page_font_size_h4 = PInt (page_font_size_h4 (v_page c))"
| "field_value c Page_line_height = PFloat (page_line_height (v_page c))"
| "field_value c Page_paragraph_spacing = PInt (page_paragraph_spacing (v_page c))"
| "field_value c Page_section_spacing = PInt (page_section_spacing (v_page c))"
| "field_value c Page_page_padding = PInt (page_page_padding (v_page c))"
| "field_value c Page_max_content_width = PInt (page_max_content_width (v_page c))"
| "field_value c Kpi_font_size_value = PInt (kpi_font_size_value (v_kpi_card c))"
| "field_value c Kpi_font_size_label = PInt (kpi_font_size_label (v_kpi_card c))"
| "field_value c Kpi_font_size_change = PInt (kpi_font_size_change (v_kpi_card c))"
| "field_value c Kpi_padding = PInt (kpi_padding (v_kpi_card c))"
| "field_value c Kpi_min_height = PInt (kpi_min_height (v_kpi_card c))"
| "field_value c Kpi_value_max_length = PInt (kpi_value_max_length (v_kpi_card c))"
| "field_value c Callout_font_size_title = PInt (callout_font_size_title (v_callout c))"
| "field_value c Callout_font_size_content = PInt (callout_font_size_content (v_callout c))"
| "field_value c Callout_padding = PInt (callout_padding (v_callout c))"
| "field_value c Callout_line_height = PFloat (callout_line_height (v_callout c))"
| "field_value c Table_font_size_header = PInt (table_font_size_header (v_table c))"
| "field_value c Table_font_size_body = PInt (table_font_size_body (v_table c))"
| "field_value c Table_cell_padding = PInt (table_cell_padding (v_table c))"
| "field_value c Table_max_cell_width = PInt (table_max_cell_width (v_table c))"
| "field_value c Chart_font_size_title = PInt (chart_font_size_title (v_chart c))"
| "field_value c Chart_font_size_label = PInt (chart_font_size_label (v_chart c))"
| "field_value c Chart_min_height = PInt (chart_min_height (v_chart c))"
| "field_value c Chart_max_height = PInt (chart_max_height (v_chart c))"
| "field_value c Chart_padding = PInt (chart_padding (v_chart c))"
| "field_value c Grid_columns = PInt (grid_columns (v_grid c))"
| "field_value c Grid_gap = PInt (grid_gap (v_grid c))"
| "field_value c Grid_responsive_breakpoint = PInt (grid_responsive_breakpoint (v_grid c))"

datatype part = Lit string | Fld num_field

type_synonym 'v decl = "string \<times> 'v"

datatype 'v css_block =
    Rule string "'v decl list"
  | Media string "(string \<times> 'v decl list) list"

definition px :: "num_field \<Rightarrow> part list" where
  "px f = [Fld f, Lit ''px'']"

definition px_important :: "num_field \<Rightarrow> part list" where
  "px_important f = [Fld f, Lit ''px !important'']"

definition css_template :: "part list css_block list" where
  "css_template =
    [Rule ''body''
       [(''font-size'', px Page_font_size_base),
        (''line-height'', [Fld Page_line_height])],
     Rule ''main''
       [(''padding'', px_important Page_page_padding),
        (''max-width'', px Page_max_content_width),
        (''margin'', [Lit ''0 auto''])],
     Rule ''h1'' [(''font-size'', px_important Page_font_size_h1)],
     Rule ''h2'' [(''font-size'', px_important Page_font_size_h2)],
     Rule ''h3'' [(''font-size'', px_important Page_font_size_h3)],
     Rule ''h4'' [(''font-size'', px_important Page_font_size_h4)],
     Rule ''p'' [(''margin-bottom'', px Page_paragraph_spacing)],
     Rule ''.chapter'' [(''margin-bottom'', px Page_section_spacing)],
     Rule ''.kpi-grid''
       [(''display'', [Lit ''grid'']),
        (''grid-template-columns'', [Lit ''repeat('', Fld Grid_columns, Lit '', 1fr)'']),
        (''gap'', px Grid_gap),
        (''margin'', [Lit ''20px 0''])],
     Rule ''.kpi-card''
       [(''padding'', px_important Kpi_padding),
        (''min-height'', px Kpi_min_height),
        (''break-inside'', [Lit ''avoid'']),
        (''page-break-inside'', [Lit ''avoid'']),
        (''overflow'', [Lit ''hidden'']),
        (''box-sizing'', [Lit ''border-box'']),
        (''max-width'', [Lit ''100%''])],
     Rule ''.kpi-card .value''
       [(''font-size'', px_important Kpi_font_size_value),
        (''line-height'', [Lit ''1.2'']),
        (''word-break'', [Lit ''break-word'']),
        (''overflow-wrap'', [Lit ''break-word'']),
        (''hyphens'', [Lit ''auto'']),
        (''max-width'', [Lit ''100%'']),
        (''overflow'', [Lit ''hidden'']),
        (''text-overflow'', [Lit ''ellipsis''])],
     Rule ''.kpi-card .label''
       [(''font-size'', px_important Kpi_font_size_label),
        (''word-break'', [Lit ''break-word'']),
        (''overflow-wrap'', [Lit ''break-word'']),
        (''max-width'', [Lit ''100%''])],
     Rule ''.kpi-card .change''
       [(''font-size'', px_important Kpi_font_size_change),
        (''word-break'', [Lit ''break-word''])],
     Rule ''.callout''
       [(''padding'', px_important Callout_padding),
        (''margin'', [Lit ''20px 0'']),
        (''line-height'', [Fld Callout_line_height]),
        (''break-inside'', [Lit ''avoid'']),
        (''page-break-inside'', [Lit ''avoid'']),
        (''overflow'', [Lit ''hidden'']),
        (''box-sizing'', [Lit ''border-box'']),
        (''max-width'', [Lit ''100%''])],
     Rule ''.callout-title''
       [(''font-size'', px_important Callout_font_size_title),
        (''margin-bottom'', [Lit ''10px'']),
        (''word-break'', [Lit ''break-word''])],
     Rule ''.callout-content''
       [(''font-size'', px_important Callout_font_size_content),
        (''word-break'', [Lit ''break-word'']),
        (''overflow-wrap'', [Lit ''break-word''])],
     Rule ''table''
       [(''width'', [Lit ''100%'']),
        (''break-inside'', [Lit ''avoid'']),
        (''page-break-inside'', [Lit ''avoid'']),
        (''table-layout'', [Lit ''fixed'']),
        (''max-width'', [Lit ''100%'']),
        (''overflow'', [Lit ''hidden''])],
     Rule ''th''
       [(''font-size'', px_important Table_font_size_header),
        (''padding'', px_important Table_cell_padding),
        (''word-break'', [Lit ''break-word'']),
        (''overflow-wrap'', [Lit ''break-word'']),
        (''hyphens'', [Lit ''auto'']),
        (''max-width'', [Lit ''100%''])],
     Rule ''td''
       [(''font-size'', px_important Table_font_size_body),
        (''padding'', px_important Table_cell_padding),
        (''max-width'', px Table_max_cell_width),
        (''word-wrap'', [Lit ''break-word'']),
        (''overflow-wrap'', [Lit ''break-word'']),
        (''word-break'', [Lit ''break-word'']),
        (''hyphens'', [Lit ''auto'']),
        (''white-space'', [Lit ''normal''])],
     Rule ''.chart-card''
       [(''min-height'', px Chart_min_height),
        (''max-height'', px Chart_max_height),
        (''padding'', px Chart_padding),
        (''break-inside'', [Lit ''avoid'']),
        (''page-break-inside'', [Lit ''avoid'']),
        (''overflow'', [Lit ''hidden'']),
        (''max-width'', [Lit ''100%'']),
        (''box-sizing'', [Lit ''border-box''])],
     Rule ''.chart-title''
       [(''font-size'', px_important Chart_font_size_title),
        (''word-break'', [Lit ''break-word''])],
     Rule ''.hero-kpi''
       [(''padding'', px_important Kpi_padding),
        (''overflow'', [Lit ''hidden'']),
        (''box-sizing'', [Lit ''border-box''])],
     Rule ''.hero-kpi .label''
       [(''font-size'', px_important Kpi_font_size_label),
        (''word-break'', [Lit ''break-word'']),
        (''max-width'', [Lit ''100%''])],
     Rule ''.hero-kpi .value''
       [(''font-size'', px_important Kpi_font_size_value),
        (''word-break'', [Lit ''break-word'']),
        (''overflow-wrap'', [Lit ''break-word'']),
        (''max-width'', [Lit ''100%''])],
     Rule ''h1, h2, h3, h4, h5, h6''
       [(''break-after'', [Lit ''avoid'']),
        (''page-break-after'', [Lit ''avoid'']),
        (''word-break'', [Lit ''break-word'']),
        (''overflow-wrap'', [Lit ''break-word''])],
     Rule ''.content-block''
       [(''break-inside'', [Lit ''avoid'']),
        (''page-break-inside'', [Lit ''avoid'']),
        (''overflow'', [Lit ''hidden'']),
        (''max-width'', [Lit ''100%''])],
     Rule ''*''
       [(''box-sizing'', [Lit ''border-box'']),
        (''max-width'', [Lit ''100%''])],
     Rule ''.kpi-value, .value, .delta''
       [(''font-variant-numeric'', [Lit ''tabular-nums'']),
        (''letter-spacing'', [Lit ''-0.02em''])],
     Rule ''.badge, .callout''
       [(''display'', [Lit ''inline-block'']),
        (''max-width'', [Lit ''100%'']),
        (''overflow'', [Lit ''hidden'']),
        (''text-overflow'', [Lit ''ellipsis'']),
        (''white-space'', [Lit ''normal''])],
     Media ''print''
       [(''*'',
         [(''overflow'', [Lit ''visible !important'']),
          (''max-width'', [Lit ''100% !important''])]),
        (''.kpi-card, .callout, .chart-card'',
         [(''overflow'', [Lit ''hidden !important''])])]]"

fun part_text :: "pylib \<Rightarrow> layout_value \<Rightarrow> part \<Rightarrow> pystr" where
  "part_text L c (Lit s) = lit s"
| "part_text L c (Fld f) = py_str L (field_value c f)"

definition generate_pdf_css :: "pylib \<Rightarrow> heap \<Rightarrow> optimizer \<Rightarrow> pystr css_block list" where
  "generate_pdf_css L h self =
     (let cfg = config_value h (config self)
      in map (map_css_block (\<lambda>parts. concat (map (part_text L cfg) parts))) css_template)"

text \<open>The declarations of a stylesheet, each with its selector, and those that print a field.\<close>

fun block_decls :: "'v css_block \<Rightarrow> (string \<times> string \<times> 'v) list" where
  "block_decls (Rule sel ds) = map (\<lambda>(prop, v). (sel, prop, v)) ds"
| "block_decls (Media m rules) =
     concat (map (\<lambda>(sel, ds). map (\<lambda>(prop, v). (sel, prop, v)) ds) rules)"

definition field_declarations :: "num_field \<Rightarrow> (string \<times> string) list" where
  "field_declarations f =
     map (\<lambda>(sel, prop, parts). (sel, prop))
       (filter (\<lambda>(sel, prop, parts). Fld f \<in> set parts)
          (concat (map block_decls css_template)))"

section \<open>Observations\<close>

text \<open>
  What a caller of \<^verbatim>\<open>_adjust_config_based_on_stats\<close> can observe: the value of the
  configuration it returns and the descriptions it appended to the log.
\<close>

definition adjusted_value :: "pylib \<Rightarrow> doc_stats \<Rightarrow> heap \<times> optimizer \<Rightarrow> layout_value" where
  "adjusted_value L stats s =
     (case adjust_config_based_on_stats L stats s of (cfg, h', self') \<Rightarrow> config_value h' cfg)"

definition appended_messages :: "pylib \<Rightarrow> doc_stats \<Rightarrow> heap \<times> optimizer \<Rightarrow> opt_msg list" where
  "appended_messages L stats s =
     (case adjust_config_based_on_stats L stats s of
        (cfg, h', self') \<Rightarrow> drop (length (optimization_log (snd s))) (optimization_log self'))"

text \<open>The descriptions each rule block appends, as a function of the statistics alone.\<close>

definition kpi_font_messages :: "pylib \<Rightarrow> doc_stats \<Rightarrow> opt_msg list" where
  "kpi_font_messages L stats =
     (let n = max_kpi_value_length stats;
          solved = calculate_safe_font_size L (replicate (nat n) 57) kpi_card_width 18 32
      in if n > 0 \<and> snd solved then [KpiValueTooLong n (fst solved)]
         else if n > 10 then [KpiValueLong n (min 28 (fst solved))]
         else [])"

definition grid_messages :: "doc_stats \<Rightarrow> opt_msg list" where
  "grid_messages stats =
     (if kpi_count stats > 6 then [ManyKpiCards (kpi_count stats)]
      else if kpi_count stats > 4 then [MediumKpiCards (kpi_count stats)]
      else if kpi_count stats \<le> 2 then [FewKpiCards (kpi_count stats)]
      else [])"

definition table_messages :: "doc_stats \<Rightarrow> opt_msg list" where
  "table_messages stats =
     (if max_table_columns stats > 8 then [VeryWideTable (max_table_columns stats)]
      else if max_table_columns stats > 6 then [WideTable (max_table_columns stats)]
      else if max_table_columns stats > 4 then [MediumTable (max_table_columns stats)]
      else [])"

definition long_text_messages :: "doc_stats \<Rightarrow> opt_msg list" where
  "long_text_messages stats = (if has_long_text stats then [LongTextDetected] else [])"

definition many_blocks_messages :: "doc_stats \<Rightarrow> opt_msg list" where
  "many_blocks_messages stats =
     (let total_blocks = kpi_count stats + table_count stats + chart_count stats +
                         callout_count stats
      in if total_blocks > 20 then [ManyBlocks total_blocks] else [])"

definition messages_for :: "pylib \<Rightarrow> doc_stats \<Rightarrow> opt_msg list" where
  "messages_for L stats =
     kpi_font_messages L stats @ grid_messages stats @ table_messages stats @
     long_text_messages stats @ many_blocks_messages stats"

text \<open>
  The five rule blocks in a row, and the frame of a rule block: it may change the
  sub-configurations a configuration refers to, except the chart's, and nothing else.
\<close>

definition apply_rules :: "pylib \<Rightarrow> doc_stats \<Rightarrow> ref \<Rightarrow> heap \<times> opt_msg list \<Rightarrow> heap \<times> opt_msg list" where
  "apply_rules L stats cfg s =
     adjust_many_blocks stats cfg (adjust_long_text stats cfg (adjust_table stats cfg
       (adjust_grid stats cfg (adjust_kpi_font L stats cfg s))))"

definition touches_only :: "pdf_layout_config \<Rightarrow> heap \<Rightarrow> heap \<Rightarrow> bool" where
  "touches_only c h h' \<longleftrightarrow>
     next_ref h' = next_ref h \<and> config_objs h' = config_objs h \<and> chart_objs h' = chart_objs h \<and>
     (\<forall>a. a \<noteq> page c \<longrightarrow> page_objs h' a = page_objs h a) \<and>
     (\<forall>a. a \<noteq> kpi_card c \<longrightarrow> kpi_card_objs h' a = kpi_card_objs h a) \<and>
     (\<forall>a. a \<noteq> callout c \<longrightarrow> callout_objs h' a = callout_objs h a) \<and>
     (\<forall>a. a \<noteq> table c \<longrightarrow> table_objs h' a = table_objs h a) \<and>
     (\<forall>a. a \<noteq> grid c \<longrightarrow> grid_objs h' a = grid_objs h a)"

text \<open>
  The usable width of a KPI card as the specification words it, from the gap of the grid
  and the padding of the card.
\<close>

definition kpi_usable_width_spec :: "layout_value \<Rightarrow> int" where
  "kpi_usable_width_spec c = (800 - grid_gap (v_grid c)) div 2 - 2 * kpi_padding (v_kpi_card c)"

text \<open>A configuration object is allocated when it and its six parts lie below the counter.\<close>

definition allocated :: "heap \<Rightarrow> ref \<Rightarrow> bool" where
  "allocated h r \<longleftrightarrow>
     (let c = config_objs h r in
      r < next_ref h \<and> page c < next_ref h \<and> kpi_card c < next_ref h \<and>
      callout c < next_ref h \<and> table c < next_ref h \<and> chart c < next_ref h \<and>
      grid c < next_ref h)"

text \<open>Sample states: the empty store, and an optimizer built with the default configuration.\<close>

definition empty_heap :: heap where
  "empty_heap = \<lparr> next_ref = 0, page_objs = (\<lambda>a. PageLayout),
     kpi_card_objs = (\<lambda>a. KPICardLayout), callout_objs = (\<lambda>a. CalloutLayout),
     table_objs = (\<lambda>a. TableLayout), chart_objs = (\<lambda>a. ChartLayout),
     grid_objs = (\<lambda>a. GridLayout),
     config_objs = (\<lambda>a. \<lparr> page = 0, kpi_card = 0, callout = 0, table = 0, chart = 0,
        grid = 0, auto_adjust_font_size = True, auto_adjust_grid_columns = True,
        prevent_orphan_headers = True, optimize_for_print = True \<rparr>) \<rparr>"

definition default_optimizer :: optimizer where
  "default_optimizer = fst (init_optimizer None empty_heap)"

definition default_heap :: heap where
  "default_heap = snd (init_optimizer None empty_heap)"

definition padded_heap :: heap where
  \<comment> \<open>the default configuration with the padding of the KPI card raised to 100\<close>
  "padded_heap =
     set_kpi_card (kpi_card (config_objs default_heap (config default_optimizer)))
       (\<lambda>k. k\<lparr>kpi_padding := 100\<rparr>) default_heap"

definition scenario_A :: pyval where
  "scenario_A = PDict [(lit ''chapters'', PList [PDict [(lit ''blocks'', PList [
     PDict [(lit ''type'', PStr (lit ''kpiGrid'')),
            (lit ''items'', PList [PDict [(lit ''value'', PStr (lit ''123456789012''))]])]])]])]"

text \<open>
  The fields a declaration value prints, and the declarations of the template that print
  at least one field.
\<close>

fun fields_of :: "part list \<Rightarrow> num_field list" where
  "fields_of [] = []"
| "fields_of (Lit s # ps) = fields_of ps"
| "fields_of (Fld f # ps) = f # fields_of ps"

definition printed_fields :: "(string \<times> string \<times> num_field list) list" where
  "printed_fields =
     filter (\<lambda>(sel, prop, fs). fs \<noteq> [])
       (map (\<lambda>(sel, prop, parts). (sel, prop, fields_of parts))
          (concat (map block_decls css_template)))"

section \<open>Properties of the analyzer and the solver\<close>

subsection \<open>Auxiliary facts\<close>

lemma lit_eq_iff [simp]: "lit a = lit b \<longleftrightarrow> a = b"
  by (simp add: lit_def inj_map_eq_map inj_on_def)

lemma length_lit [simp]: "length (lit s) = length s"
  by (simp add: lit_def)

lemma lit_Nil [simp]: "lit [] = []" "lit s = [] \<longleftrightarrow> s = []"
  by (simp_all add: lit_def)

lemma first_fitting_Some:
  "first_fitting ovf hi lo = Some s \<Longrightarrow>
     lo \<le> s \<and> s \<le> hi \<and> \<not> ovf s \<and> (\<forall>t. s < t \<and> t \<le> hi \<longrightarrow> ovf t)"
proof (induction ovf hi lo rule: first_fitting.induct)
  case (1 ovf hi lo)
  show ?case
  proof (cases "hi < lo")
    case True
    with "1.prems" show ?thesis by (simp add: first_fitting.simps)
  next
    case False
    show ?thesis
    proof (cases "ovf hi")
      case False
      with \<open>\<not> hi < lo\<close> "1.prems" show ?thesis by (auto simp add: first_fitting.simps)
    next
      case True
      with \<open>\<not> hi < lo\<close> "1.prems" have "first_fitting ovf (hi - 1) lo = Some s"
        by (simp add: first_fitting.simps)
      with "1.IH" \<open>\<not> hi < lo\<close> True
      have ih: "lo \<le> s \<and> s \<le> hi - 1 \<and> \<not> ovf s \<and> (\<forall>t. s < t \<and> t \<le> hi - 1 \<longrightarrow> ovf t)"
        by simp
      have "ovf t" if "s < t" "t \<le> hi" for t
      proof (cases "t = hi")
        case True
        with \<open>ovf hi\<close> show ?thesis by simp
      next
        case False
        with that ih show ?thesis by simp
      qed
      with ih show ?thesis by simp
    qed
  qed
qed

lemma first_fitting_None:
  "first_fitting ovf hi lo = None \<Longrightarrow> lo \<le> t \<Longrightarrow> t \<le> hi \<Longrightarrow> ovf t"
proof (induction ovf hi lo rule: first_fitting.induct)
  case (1 ovf hi lo)
  from "1.prems" have nlt: "\<not> hi < lo" by simp
  with "1.prems" have o: "ovf hi" by (simp add: first_fitting.simps split: if_splits)
  show ?case
  proof (cases "t = hi")
    case True
    with o show ?thesis by simp
  next
    case False
    from nlt o "1.prems" have "first_fitting ovf (hi - 1) lo = None"
      by (simp add: first_fitting.simps)
    with "1.IH" nlt o "1.prems" False show ?thesis by simp
  qed
qed

lemma foldl_replicate_add:
  "foldl (\<lambda>width c. width + f c) a (replicate n c) = a + of_nat n * (f c :: rat)"
  by (induction n arbitrary: a) (simp_all add: algebra_simps)

lemma width_of_digits:
  "estimate_text_width L (replicate n 57) fs = of_nat n * (of_int fs * (6 / 10))"
  by (simp add: estimate_text_width_def foldl_replicate_add classify_def py_isalpha_def
      py_isdigit_def)

lemma width_empty: "estimate_text_width L [] fs = 0"
  by (simp add: estimate_text_width_def)

subsection \<open>The analyzer on malformed nodes\<close>

text \<open>
  C1. The specification says that the analyzer never raises on a malformed IR and skips
  the node instead. The code does so for a block that is not a dict and for a child
  chapter that is not a dict, but not elsewhere: a top-level chapter that is a bare
  string, a KPI item that is not a dict, and a \<^verbatim>\<open>rows\<close> value that is \<^verbatim>\<open>null\<close>
  each end the analysis with an exception (\<^verbatim>\<open>'str' object has no attribute 'get'\<close>,
  \<^verbatim>\<open>'int' object has no attribute 'get'\<close>, \<^verbatim>\<open>object of type 'NoneType' has no len()\<close>).
\<close>

theorem analyze_raises_on_malformed_nodes:
  "analyze_document ascii_lib (PDict [(lit ''chapters'', PList [PStr (lit ''intro'')])])
     = Inl AttributeError
   \<and> analyze_document ascii_lib
       (PDict [(lit ''chapters'', PList [PDict [(lit ''blocks'', PList [
          PDict [(lit ''type'', PStr (lit ''kpiGrid'')), (lit ''items'', PList [PInt 5])]])]])])
     = Inl AttributeError
   \<and> analyze_document ascii_lib
       (PDict [(lit ''chapters'', PList [PDict [(lit ''blocks'', PList [
          PDict [(lit ''type'', PStr (lit ''table'')), (lit ''rows'', PNone)]])]])])
     = Inl TypeError"
  by (simp add: analyze_document_def dict_get_def analyze_typed_def analyze_kpi_item_def
      table_columns_def initial_stats_def)


subsection \<open>The font-size solver\<close>

text \<open>
  C5. For bounds with \<open>min_font_size \<le> max_font_size\<close> the solver returns a size within
  the bounds. An empty text gives \<open>(max_font_size, False)\<close>. For a text that is not empty:
  if some size within the bounds does not overflow, the result is the largest such size
  and the flag says whether it is below \<open>max_font_size\<close>; if every size within the bounds
  overflows, the result is \<open>(min_font_size, True)\<close>.
\<close>

theorem solve_font_size_spec:
  assumes "min_font_size \<le> max_font_size"
  shows "case calculate_safe_font_size L T max_width min_font_size max_font_size of
          (sz, adjusted) \<Rightarrow>
            min_font_size \<le> sz \<and> sz \<le> max_font_size \<and>
            (T = [] \<longrightarrow> sz = max_font_size \<and> \<not> adjusted) \<and>
            (T \<noteq> [] \<and> (\<exists>s. min_font_size \<le> s \<and> s \<le> max_font_size \<and>
                               \<not> check_text_overflow L T s max_width) \<longrightarrow>
               \<not> check_text_overflow L T sz max_width \<and>
               (\<forall>t. sz < t \<and> t \<le> max_font_size \<longrightarrow> check_text_overflow L T t max_width) \<and>
               adjusted = (sz < max_font_size)) \<and>
            (T \<noteq> [] \<and> (\<forall>s. min_font_size \<le> s \<and> s \<le> max_font_size \<longrightarrow>
                               check_text_overflow L T s max_width) \<longrightarrow>
               sz = min_font_size \<and> adjusted)"
proof (cases "T = []")
  case True
  with assms show ?thesis by (simp add: calculate_safe_font_size_def)
next
  case False
  let ?ovf = "\<lambda>fs. check_text_overflow L T fs max_width"
  show ?thesis
  proof (cases "first_fitting ?ovf max_font_size min_font_size")
    case None
    then have "\<And>t. min_font_size \<le> t \<Longrightarrow> t \<le> max_font_size \<Longrightarrow> ?ovf t"
      by (rule first_fitting_None)
    with None False assms show ?thesis
      by (auto simp add: calculate_safe_font_size_def)
  next
    case (Some s)
    from first_fitting_Some [OF Some] Some False show ?thesis
      by (auto simp add: calculate_safe_font_size_def)
  qed
qed

theorem solve_font_size_spec_witness:
  "calculate_safe_font_size ascii_lib [] 350 18 32 = (32, False)
   \<and> calculate_safe_font_size ascii_lib (replicate 100 57) 350 4 6 = (5, True)
   \<and> \<not> check_text_overflow ascii_lib (replicate 100 57) 5 350
   \<and> check_text_overflow ascii_lib (replicate 100 57) 6 350
   \<and> calculate_safe_font_size ascii_lib (replicate 100 57) 350 18 32 = (18, True)"
proof -
  have a: "(18::int) \<le> 32" and b: "(4::int) \<le> 6" by simp_all
  have o: "check_text_overflow ascii_lib (replicate 100 57) s 350 \<longleftrightarrow> s \<ge> 6" for s
  proof -
    have "((35::rat) < 6 * rat_of_int s) = (rat_of_int 35 < rat_of_int (6 * s))" by simp
    also have "\<dots> = (35 < 6 * s)" by (simp only: of_int_less_iff)
    also have "\<dots> = (6 \<le> s)" by arith
    finally show ?thesis by (simp add: check_text_overflow_def width_of_digits)
  qed
  have e: "\<exists>s::int. 4 \<le> s \<and> s \<le> 6 \<and> \<not> 6 \<le> s" by (rule exI [of _ 5]) simp
  have u: "\<forall>t::int. 5 < t \<and> t \<le> 6 \<longrightarrow> 6 \<le> t" by presburger
  from solve_font_size_spec [OF a, where L = ascii_lib and T = "[]" and max_width = 350]
  have 1: "calculate_safe_font_size ascii_lib [] 350 18 32 = (32, False)"
    by (auto split: prod.splits)
  have 2: "calculate_safe_font_size ascii_lib (replicate 100 57) 350 4 6 = (5, True)"
  proof -
    obtain sz adj where r: "calculate_safe_font_size ascii_lib (replicate 100 57) 350 4 6 = (sz, adj)"
      by (cases "calculate_safe_font_size ascii_lib (replicate 100 57) 350 4 6")
    from solve_font_size_spec [OF b, where L = ascii_lib and T = "replicate 100 57" and max_width = 350] r e
    have p: "4 \<le> sz" "\<not> 6 \<le> sz" "\<forall>t. sz < t \<and> t \<le> 6 \<longrightarrow> 6 \<le> t" "adj = (sz < 6)"
      by (simp_all add: o)
    from p(3) have "\<not> sz < 5" by (auto dest: spec [of _ 5])
    with p r show ?thesis by auto
  qed
  from solve_font_size_spec [OF a, where L = ascii_lib and T = "replicate 100 57" and max_width = 350]
  have 3: "calculate_safe_font_size ascii_lib (replicate 100 57) 350 18 32 = (18, True)"
    by (auto simp add: o split: prod.splits)
  from 1 2 3 show ?thesis by (simp add: o)
qed



text \<open>
  C6 (as amended). With equal bounds the solver returns
  \<open>(S, isOverflowing(T, S, maxWidth))\<close> whenever the text is not empty or the width budget
  is not negative. The empty text is answered before any width is looked at: for the
  empty text the result is \<open>(S, False)\<close> whatever the budget is, also for a negative
  budget, which the width 0 exceeds.
\<close>

theorem solve_equal_bounds:
  "(T \<noteq> [] \<or> 0 \<le> max_width \<longrightarrow>
      calculate_safe_font_size L T max_width S S = (S, check_text_overflow L T S max_width))
   \<and> calculate_safe_font_size L [] max_width S S = (S, False)
   \<and> (max_width < 0 \<longrightarrow> check_text_overflow L [] S max_width)"
proof (intro conjI impI)
  assume a: "T \<noteq> [] \<or> 0 \<le> max_width"
  show "calculate_safe_font_size L T max_width S S = (S, check_text_overflow L T S max_width)"
  proof (cases "T = []")
    case True
    with a show ?thesis
      by (simp add: calculate_safe_font_size_def check_text_overflow_def width_empty)
  next
    case False
    then show ?thesis
      by (simp add: calculate_safe_font_size_def first_fitting.simps [of _ S S]
          first_fitting.simps [of _ "S - 1" S])
  qed
next
  show "calculate_safe_font_size L [] max_width S S = (S, False)"
    by (simp add: calculate_safe_font_size_def)
next
  assume "max_width < 0"
  then show "check_text_overflow L [] S max_width"
    by (simp add: check_text_overflow_def width_empty)
qed

theorem solve_equal_bounds_witness:
  "calculate_safe_font_size ascii_lib (replicate 100 57) 350 20 20 = (20, True)
   \<and> calculate_safe_font_size ascii_lib [] 0 20 20 = (20, False)
   \<and> calculate_safe_font_size ascii_lib [] (- 1) 20 20 = (20, False)
   \<and> check_text_overflow ascii_lib [] 20 (- 1)"
proof -
  have o: "check_text_overflow ascii_lib (replicate 100 57) 20 350"
    by (simp add: check_text_overflow_def width_of_digits)
  have e: "\<not> check_text_overflow ascii_lib [] 20 0"
    by (simp add: check_text_overflow_def width_empty)
  from solve_equal_bounds [where T = "replicate 100 57" and max_width = 350 and L = ascii_lib
      and S = 20]
    solve_equal_bounds [where T = "[]" and max_width = 0 and L = ascii_lib and S = 20]
    solve_equal_bounds [where T = "[]" and max_width = "- 1" and L = ascii_lib and S = 20]
    o e
  show ?thesis by simp
qed

text \<open>The input on which the equation of C6 fails as it was stated.\<close>

theorem solve_equal_bounds_counterexample:
  "calculate_safe_font_size ascii_lib [] (- 1) 10 10
     \<noteq> (10, check_text_overflow ascii_lib [] 10 (- 1))"
  by (simp add: calculate_safe_font_size_def check_text_overflow_def width_empty)

section \<open>Properties of the adjustment engine\<close>

subsection \<open>What each rule block touches\<close>

lemmas new_defs = new_page_def new_kpi_card_def new_callout_def new_table_def
  new_chart_def new_grid_def new_config_def

lemmas set_defs = set_page_def set_kpi_card_def set_callout_def set_table_def set_grid_def

lemmas rule_defs = adjust_kpi_font_def adjust_grid_def adjust_table_def
  adjust_long_text_def adjust_many_blocks_def

lemma touches_only_refl: "touches_only c h h"
  by (simp add: touches_only_def)

lemma touches_only_trans: "touches_only c h h1 \<Longrightarrow> touches_only c h1 h2 \<Longrightarrow> touches_only c h h2"
  by (simp add: touches_only_def)

lemma touches_kpi_font: "touches_only (config_objs (fst s) cfg) (fst s) (fst (adjust_kpi_font L st cfg s))"
  by (cases s) (simp add: adjust_kpi_font_def touches_only_def set_defs Let_def split: prod.splits)

lemma touches_grid: "touches_only (config_objs (fst s) cfg) (fst s) (fst (adjust_grid st cfg s))"
  by (cases s) (simp add: adjust_grid_def touches_only_def set_defs Let_def)

lemma touches_table: "touches_only (config_objs (fst s) cfg) (fst s) (fst (adjust_table st cfg s))"
  by (cases s) (simp add: adjust_table_def touches_only_def set_defs Let_def)

lemma touches_long_text: "touches_only (config_objs (fst s) cfg) (fst s) (fst (adjust_long_text st cfg s))"
  by (cases s) (simp add: adjust_long_text_def touches_only_def set_defs Let_def)

lemma touches_many_blocks: "touches_only (config_objs (fst s) cfg) (fst s) (fst (adjust_many_blocks st cfg s))"
  by (cases s) (simp add: adjust_many_blocks_def touches_only_def set_defs Let_def)

lemma adjust_unfold:
  "adjust_config_based_on_stats L stats (h, self) =
     (fst (copy_config (config self) h),
      fst (apply_rules L stats (fst (copy_config (config self) h))
             (snd (copy_config (config self) h), optimization_log self)),
      self\<lparr>optimization_log :=
        snd (apply_rules L stats (fst (copy_config (config self) h))
             (snd (copy_config (config self) h), optimization_log self))\<rparr>)"
  by (simp add: adjust_config_based_on_stats_def apply_rules_def Let_def split_def)

lemma touches_apply_rules:
  "touches_only (config_objs (fst s) cfg) (fst s) (fst (apply_rules L st cfg s))"
proof -
  let ?c = "config_objs (fst s) cfg"
  let ?s1 = "adjust_kpi_font L st cfg s"
  let ?s2 = "adjust_grid st cfg ?s1"
  let ?s3 = "adjust_table st cfg ?s2"
  let ?s4 = "adjust_long_text st cfg ?s3"
  have t1: "touches_only ?c (fst s) (fst ?s1)" by (rule touches_kpi_font)
  then have c1: "config_objs (fst ?s1) cfg = ?c" by (simp add: touches_only_def)
  have t2: "touches_only ?c (fst s) (fst ?s2)"
    using touches_only_trans [OF t1] touches_grid [of ?s1 cfg st] c1 by simp
  then have c2: "config_objs (fst ?s2) cfg = ?c" by (simp add: touches_only_def)
  have t3: "touches_only ?c (fst s) (fst ?s3)"
    using touches_only_trans [OF t2] touches_table [of ?s2 cfg st] c2 by simp
  then have c3: "config_objs (fst ?s3) cfg = ?c" by (simp add: touches_only_def)
  have t4: "touches_only ?c (fst s) (fst ?s4)"
    using touches_only_trans [OF t3] touches_long_text [of ?s3 cfg st] c3 by simp
  then have c4: "config_objs (fst ?s4) cfg = ?c" by (simp add: touches_only_def)
  show ?thesis
    unfolding apply_rules_def
    using touches_only_trans [OF t4] touches_many_blocks [of ?s4 cfg st] c4 by simp
qed

lemma copy_config_refs:
  assumes "copy_config b h = (r, h1)"
  shows "r = next_ref h + 6"
    and "page (config_objs h1 r) = next_ref h"
    and "kpi_card (config_objs h1 r) = next_ref h + 1"
    and "callout (config_objs h1 r) = next_ref h + 2"
    and "table (config_objs h1 r) = next_ref h + 3"
    and "chart (config_objs h1 r) = next_ref h + 4"
    and "grid (config_objs h1 r) = next_ref h + 5"
  using assms by (auto simp add: copy_config_def new_defs)

lemma copy_config_frame:
  "copy_config b h = (r, h1) \<Longrightarrow> a < next_ref h \<Longrightarrow>
     page_objs h1 a = page_objs h a \<and> kpi_card_objs h1 a = kpi_card_objs h a \<and>
     callout_objs h1 a = callout_objs h a \<and> table_objs h1 a = table_objs h a \<and>
     chart_objs h1 a = chart_objs h a \<and> grid_objs h1 a = grid_objs h a \<and>
     config_objs h1 a = config_objs h a"
  by (auto simp add: copy_config_def new_defs)


lemma rules_keep_configs:
  "config_objs (fst (adjust_kpi_font L st cfg s)) = config_objs (fst s)"
  "config_objs (fst (adjust_grid st cfg s)) = config_objs (fst s)"
  "config_objs (fst (adjust_table st cfg s)) = config_objs (fst s)"
  "config_objs (fst (adjust_long_text st cfg s)) = config_objs (fst s)"
  "config_objs (fst (adjust_many_blocks st cfg s)) = config_objs (fst s)"
  using touches_kpi_font [of s cfg L st] touches_grid [of s cfg st] touches_table [of s cfg st]
    touches_long_text [of s cfg st] touches_many_blocks [of s cfg st]
  by (simp_all add: touches_only_def)

lemma later_rules_keep_kpi_and_grid:
  "kpi_card_objs (fst (adjust_table st cfg s)) = kpi_card_objs (fst s)"
  "kpi_card_objs (fst (adjust_long_text st cfg s)) = kpi_card_objs (fst s)"
  "kpi_card_objs (fst (adjust_many_blocks st cfg s)) = kpi_card_objs (fst s)"
  "grid_objs (fst (adjust_table st cfg s)) = grid_objs (fst s)"
  "grid_objs (fst (adjust_long_text st cfg s)) = grid_objs (fst s)"
  "grid_objs (fst (adjust_many_blocks st cfg s)) = grid_objs (fst s)"
  by (cases s; simp add: rule_defs set_defs Let_def)+

lemma kpi_font_keeps_grid:
  "grid_objs (fst (adjust_kpi_font L st cfg s)) = grid_objs (fst s)"
  by (cases s) (simp add: rule_defs set_defs Let_def split: prod.splits)

lemma apply_rules_configs:
  "config_objs (fst (apply_rules L st cfg s)) = config_objs (fst s)"
  by (simp add: apply_rules_def rules_keep_configs)

lemma apply_rules_kpi_card:
  "kpi_card_objs (fst (apply_rules L st cfg s)) =
   kpi_card_objs (fst (adjust_grid st cfg (adjust_kpi_font L st cfg s)))"
  by (simp add: apply_rules_def later_rules_keep_kpi_and_grid)

lemma apply_rules_grid:
  "grid_objs (fst (apply_rules L st cfg s)) = grid_objs (fst (adjust_grid st cfg (adjust_kpi_font L st cfg s)))"
  by (simp add: apply_rules_def later_rules_keep_kpi_and_grid)

lemma grid_rule_columns:
  "grid_columns (grid_objs (fst (adjust_grid st cfg s)) (grid (config_objs (fst s) cfg))) =
     (if kpi_count st > 6 then 3 else if kpi_count st > 4 then 2
      else if kpi_count st \<le> 2 then 1
      else grid_columns (grid_objs (fst s) (grid (config_objs (fst s) cfg))))"
  by (cases s) (simp add: adjust_grid_def set_defs Let_def)

lemma grid_rule_padding:
  "kpi_padding (kpi_card_objs (fst (adjust_grid st cfg s)) (kpi_card (config_objs (fst s) cfg))) =
     (if kpi_count st > 6 then 16 else if kpi_count st > 4 then 18
      else if kpi_count st \<le> 2 then 24
      else kpi_padding (kpi_card_objs (fst s) (kpi_card (config_objs (fst s) cfg))))"
  by (cases s) (simp add: adjust_grid_def set_defs Let_def)

lemma grid_rule_keeps_font:
  "kpi_font_size_value (kpi_card_objs (fst (adjust_grid st cfg s)) a) =
   kpi_font_size_value (kpi_card_objs (fst s) a)"
  by (cases s) (simp add: adjust_grid_def set_defs Let_def)

lemma kpi_font_rule_keeps_padding:
  "kpi_padding (kpi_card_objs (fst (adjust_kpi_font L st cfg s)) a) =
   kpi_padding (kpi_card_objs (fst s) a)"
  by (cases s) (simp add: adjust_kpi_font_def set_defs Let_def split: prod.splits)

lemma kpi_font_rule_value:
  "kpi_font_size_value (kpi_card_objs (fst (adjust_kpi_font L st cfg s)) (kpi_card (config_objs (fst s) cfg))) =
     (let n = max_kpi_value_length st;
          solved = calculate_safe_font_size L (replicate (nat n) 57) 350 18 32
      in if n > 0 \<and> snd solved then fst solved
         else if n > 10 then min 28 (fst solved)
         else kpi_font_size_value (kpi_card_objs (fst s) (kpi_card (config_objs (fst s) cfg))))"
  by (cases s) (simp add: adjust_kpi_font_def set_defs Let_def kpi_card_width_def split: prod.splits)


lemma rule_messages:
  "snd (adjust_kpi_font L st cfg s) = snd s @ kpi_font_messages L st"
  "snd (adjust_grid st cfg s) = snd s @ grid_messages st"
  "snd (adjust_table st cfg s) = snd s @ table_messages st"
  "snd (adjust_long_text st cfg s) = snd s @ long_text_messages st"
  "snd (adjust_many_blocks st cfg s) = snd s @ many_blocks_messages st"
      apply (cases s; simp add: adjust_kpi_font_def kpi_font_messages_def set_defs Let_def split: prod.splits)
     apply (cases s; simp add: adjust_grid_def grid_messages_def Let_def)
    apply (cases s; simp add: adjust_table_def table_messages_def Let_def)
   apply (cases s; simp add: adjust_long_text_def long_text_messages_def Let_def)
  apply (cases s; simp add: adjust_many_blocks_def many_blocks_messages_def Let_def)
  done

lemma apply_rules_messages:
  "snd (apply_rules L st cfg s) = snd s @ messages_for L st"
  by (simp add: apply_rules_def rule_messages messages_for_def)

lemma adjust_log:
  "adjust_config_based_on_stats L st (h, self) = (cfg, h', self') \<Longrightarrow>
     optimization_log self' = optimization_log self @ messages_for L st \<and> config self' = config self"
  by (auto simp add: adjust_unfold apply_rules_messages)

lemma appended_messages_eq: "appended_messages L st (h, self) = messages_for L st"
  by (simp add: appended_messages_def adjust_unfold apply_rules_messages)

lemma config_value_sel:
  "v_page (config_value h r) = page_objs h (page (config_objs h r))"
  "v_kpi_card (config_value h r) = kpi_card_objs h (kpi_card (config_objs h r))"
  "v_callout (config_value h r) = callout_objs h (callout (config_objs h r))"
  "v_table (config_value h r) = table_objs h (table (config_objs h r))"
  "v_chart (config_value h r) = chart_objs h (chart (config_objs h r))"
  "v_grid (config_value h r) = grid_objs h (grid (config_objs h r))"
  by (simp_all add: config_value_def Let_def)

lemma copy_config_value:
  "copy_config b h = (r, h1) \<Longrightarrow> config_value h1 r = config_value h b"
  by (auto simp add: copy_config_def new_defs config_value_def Let_def)

lemma adjusted_kpi_font:
  "kpi_font_size_value (v_kpi_card (adjusted_value L st (h, self))) =
     (let n = max_kpi_value_length st;
          solved = calculate_safe_font_size L (replicate (nat n) 57) 350 18 32
      in if n > 0 \<and> snd solved then fst solved
         else if n > 10 then min 28 (fst solved)
         else kpi_font_size_value (v_kpi_card (config_value h (config self))))"
proof -
  obtain r h1 where c: "copy_config (config self) h = (r, h1)"
    by (cases "copy_config (config self) h")
  have cv: "kpi_card_objs h1 (kpi_card (config_objs h1 r)) = v_kpi_card (config_value h (config self))"
    using copy_config_value [OF c] by (simp add: config_value_sel [symmetric])
  let ?s1 = "adjust_kpi_font L st r (h1, optimization_log self)"
  have k: "kpi_card (config_objs (fst ?s1) r) = kpi_card (config_objs h1 r)"
    by (simp add: rules_keep_configs)
  have "kpi_font_size_value (v_kpi_card (adjusted_value L st (h, self))) =
        kpi_font_size_value (kpi_card_objs (fst ?s1) (kpi_card (config_objs h1 r)))"
    by (simp add: adjusted_value_def adjust_unfold c config_value_sel apply_rules_configs
        apply_rules_kpi_card grid_rule_keeps_font)
  also have "\<dots> = (let n = max_kpi_value_length st;
          solved = calculate_safe_font_size L (replicate (nat n) 57) 350 18 32
      in if n > 0 \<and> snd solved then fst solved
         else if n > 10 then min 28 (fst solved)
         else kpi_font_size_value (kpi_card_objs h1 (kpi_card (config_objs h1 r))))"
    using kpi_font_rule_value [of L st r "(h1, optimization_log self)"] by (simp add: Let_def)
  finally show ?thesis by (simp only: cv)
qed

lemma adjusted_grid_columns:
  "grid_columns (v_grid (adjusted_value L st (h, self))) =
     (if kpi_count st > 6 then 3 else if kpi_count st > 4 then 2
      else if kpi_count st \<le> 2 then 1
      else grid_columns (v_grid (config_value h (config self))))"
proof -
  obtain r h1 where c: "copy_config (config self) h = (r, h1)"
    by (cases "copy_config (config self) h")
  have cv: "grid_objs h1 (grid (config_objs h1 r)) = v_grid (config_value h (config self))"
    using copy_config_value [OF c] by (simp add: config_value_sel [symmetric])
  let ?s1 = "adjust_kpi_font L st r (h1, optimization_log self)"
  have "grid_columns (v_grid (adjusted_value L st (h, self))) =
        grid_columns (grid_objs (fst (adjust_grid st r ?s1)) (grid (config_objs (fst ?s1) r)))"
    by (simp add: adjusted_value_def adjust_unfold c config_value_sel apply_rules_configs
        apply_rules_grid rules_keep_configs)
  also have "\<dots> = (if kpi_count st > 6 then 3 else if kpi_count st > 4 then 2
      else if kpi_count st \<le> 2 then 1
      else grid_columns (grid_objs h1 (grid (config_objs h1 r))))"
    by (simp only: grid_rule_columns) (simp add: rules_keep_configs kpi_font_keeps_grid)
  finally show ?thesis by (simp only: cv)
qed

lemma adjusted_kpi_padding:
  "kpi_padding (v_kpi_card (adjusted_value L st (h, self))) =
     (if kpi_count st > 6 then 16 else if kpi_count st > 4 then 18
      else if kpi_count st \<le> 2 then 24
      else kpi_padding (v_kpi_card (config_value h (config self))))"
proof -
  obtain r h1 where c: "copy_config (config self) h = (r, h1)"
    by (cases "copy_config (config self) h")
  have cv: "kpi_card_objs h1 (kpi_card (config_objs h1 r)) = v_kpi_card (config_value h (config self))"
    using copy_config_value [OF c] by (simp add: config_value_sel [symmetric])
  let ?s1 = "adjust_kpi_font L st r (h1, optimization_log self)"
  have "kpi_padding (v_kpi_card (adjusted_value L st (h, self))) =
        kpi_padding (kpi_card_objs (fst (adjust_grid st r ?s1)) (kpi_card (config_objs (fst ?s1) r)))"
    by (simp add: adjusted_value_def adjust_unfold c config_value_sel apply_rules_configs
        apply_rules_kpi_card rules_keep_configs)
  also have "\<dots> = (if kpi_count st > 6 then 16 else if kpi_count st > 4 then 18
      else if kpi_count st \<le> 2 then 24
      else kpi_padding (kpi_card_objs h1 (kpi_card (config_objs h1 r))))"
    by (simp only: grid_rule_padding) (simp add: rules_keep_configs kpi_font_rule_keeps_padding)
  finally show ?thesis by (simp only: cv)
qed

lemma default_state_eval:
  "default_optimizer = \<lparr> config = 6, optimization_log = [] \<rparr>"
  "config_value default_heap 6 =
     \<lparr> v_page = PageLayout, v_kpi_card = KPICardLayout, v_callout = CalloutLayout,
       v_table = TableLayout, v_chart = ChartLayout, v_grid = GridLayout,
       v_auto_adjust_font_size = True, v_auto_adjust_grid_columns = True,
       v_prevent_orphan_headers = True, v_optimize_for_print = True \<rparr>"
  "allocated default_heap 6"
  by (simp_all add: default_optimizer_def default_heap_def init_optimizer_def
      create_default_config_def new_defs empty_heap_def config_value_def allocated_def Let_def)

lemma digits_overflow_iff:
  "check_text_overflow L (replicate n 57) fs w \<longleftrightarrow> 5 * w < 3 * int n * fs"
proof -
  have "check_text_overflow L (replicate n 57) fs w \<longleftrightarrow>
        rat_of_int w < rat_of_nat n * (rat_of_int fs * (6 / 10))"
    by (simp add: check_text_overflow_def width_of_digits)
  also have "\<dots> \<longleftrightarrow> rat_of_int (5 * w) < rat_of_int (3 * int n * fs)"
    by (simp add: field_simps)
  also have "\<dots> \<longleftrightarrow> 5 * w < 3 * int n * fs"
    by (simp only: of_int_less_iff)
  finally show ?thesis .
qed

lemma solve_twelve_digits:
  "calculate_safe_font_size L (replicate 12 57) 350 18 32 = (32, False)"
  by (simp add: calculate_safe_font_size_def first_fitting.simps [of _ 32 18] digits_overflow_iff)

lemma padded_eval:
  "config_value padded_heap 6 =
     \<lparr> v_page = PageLayout, v_kpi_card = KPICardLayout\<lparr>kpi_padding := 100\<rparr>,
       v_callout = CalloutLayout, v_table = TableLayout, v_chart = ChartLayout,
       v_grid = GridLayout, v_auto_adjust_font_size = True,
       v_auto_adjust_grid_columns = True, v_prevent_orphan_headers = True,
       v_optimize_for_print = True \<rparr>"
  by (simp add: padded_heap_def set_kpi_card_def default_optimizer_def default_heap_def
      init_optimizer_def create_default_config_def new_defs empty_heap_def config_value_def
      Let_def)

lemma fit_in_190:
  "calculate_safe_font_size L (replicate 12 57) 190 18 32 = (26, True)"
  by (simp add: calculate_safe_font_size_def first_fitting.simps digits_overflow_iff)

lemma scenario_A_stats:
  "analyze_document L scenario_A = Inr (initial_stats\<lparr>kpi_count := 1, max_kpi_value_length := 12\<rparr>)"
  by (simp add: scenario_A_def analyze_document_def dict_get_def analyze_typed_def
      analyze_kpi_item_def initial_stats_def)

lemma default_adjust_result:
  "fst (adjust_config_based_on_stats L stats (default_heap, default_optimizer)) = 13"
  by (simp add: adjust_unfold default_state_eval copy_config_def new_defs default_heap_def
      init_optimizer_def create_default_config_def empty_heap_def Let_def split_def)

lemma optimize_with_entry_Inr:
  assumes "optimize_with_entry L now ir (h, self) = Inr ((cfg, entry), h', self')"
  shows "analyze_document L ir = Inr (document_stats entry)"
    and "optimizations entry = optimization_log self @ messages_for L (document_stats entry)"
    and "optimization_log self' = []"
    and "config self' = config self"
proof -
  from assms obtain stats where a: "analyze_document L ir = Inr stats"
    by (cases "analyze_document L ir") (simp_all add: optimize_with_entry_def)
  obtain c h1 s1 where r: "adjust_config_based_on_stats L stats (h, self) = (c, h1, s1)"
    by (cases "adjust_config_based_on_stats L stats (h, self)")
  note l = adjust_log [OF r]
  from assms a r have e: "entry = \<lparr> timestamp = now, document_stats = stats,
        optimizations = optimization_log s1, final_config = to_dict h1 c \<rparr>"
    and s: "self' = s1\<lparr>optimization_log := []\<rparr>"
    by (auto simp add: optimize_with_entry_def log_optimization_def)
  from e a show "analyze_document L ir = Inr (document_stats entry)" by simp
  from e l show "optimizations entry = optimization_log self @ messages_for L (document_stats entry)"
    by simp
  from s show "optimization_log self' = []" by simp
  from s l show "config self' = config self" by simp
qed

subsection \<open>The rule for few KPI cards\<close>

text \<open>
  C3 (as amended). The rule that sets \<^verbatim>\<open>grid.columns = 1\<close> and \<^verbatim>\<open>kpi_card.padding = 24\<close>
  triggers exactly when \<open>kpi_count \<le> 2\<close>, and then neither of the rules for higher counts
  triggers: its description is among those the call appends if and only if
  \<open>kpi_count \<le> 2\<close>, and then the returned configuration has one column and padding 24.
  This includes a document without any KPI card: for \<open>kpi_count = 0\<close> the returned
  configuration has one column and padding 24. For \<open>kpi_count\<close> 3 or 4 both fields keep
  the values of the baseline.
\<close>

theorem few_kpis_rule:
  "(FewKpiCards (kpi_count stats) \<in> set (appended_messages L stats (h, self))
      \<longleftrightarrow> kpi_count stats \<le> 2)
   \<and> (kpi_count stats \<le> 2 \<longrightarrow>
        grid_columns (v_grid (adjusted_value L stats (h, self))) = 1 \<and>
        kpi_padding (v_kpi_card (adjusted_value L stats (h, self))) = 24 \<and>
        ManyKpiCards (kpi_count stats) \<notin> set (appended_messages L stats (h, self)) \<and>
        MediumKpiCards (kpi_count stats) \<notin> set (appended_messages L stats (h, self)))
   \<and> (kpi_count stats = 0 \<longrightarrow>
        FewKpiCards 0 \<in> set (appended_messages L stats (h, self)) \<and>
        grid_columns (v_grid (adjusted_value L stats (h, self))) = 1 \<and>
        kpi_padding (v_kpi_card (adjusted_value L stats (h, self))) = 24)
   \<and> (2 < kpi_count stats \<and> kpi_count stats \<le> 4 \<longrightarrow>
        grid_columns (v_grid (adjusted_value L stats (h, self))) =
          grid_columns (v_grid (config_value h (config self))) \<and>
        kpi_padding (v_kpi_card (adjusted_value L stats (h, self))) =
          kpi_padding (v_kpi_card (config_value h (config self))))"
proof -
  have few: "FewKpiCards (kpi_count stats) \<in> set (messages_for L stats) \<longleftrightarrow> kpi_count stats \<le> 2"
    by (auto simp add: messages_for_def kpi_font_messages_def grid_messages_def
        table_messages_def long_text_messages_def many_blocks_messages_def Let_def)
  have many: "ManyKpiCards (kpi_count stats) \<in> set (messages_for L stats) \<longleftrightarrow> 6 < kpi_count stats"
    by (auto simp add: messages_for_def kpi_font_messages_def grid_messages_def
        table_messages_def long_text_messages_def many_blocks_messages_def Let_def)
  have medium: "MediumKpiCards (kpi_count stats) \<in> set (messages_for L stats) \<longleftrightarrow>
      4 < kpi_count stats \<and> kpi_count stats \<le> 6"
    by (auto simp add: messages_for_def kpi_font_messages_def grid_messages_def
        table_messages_def long_text_messages_def many_blocks_messages_def Let_def)
  have zero: "kpi_count stats = 0 \<Longrightarrow> FewKpiCards 0 \<in> set (messages_for L stats)"
    using few by simp
  from few many medium zero show ?thesis
    by (simp add: appended_messages_eq adjusted_grid_columns adjusted_kpi_padding)
qed

theorem few_kpis_rule_witness:
  "FewKpiCards 0 \<in> set (appended_messages ascii_lib initial_stats (default_heap, default_optimizer))
   \<and> grid_columns (v_grid (adjusted_value ascii_lib initial_stats (default_heap, default_optimizer))) = 1
   \<and> kpi_padding (v_kpi_card (adjusted_value ascii_lib initial_stats (default_heap, default_optimizer))) = 24
   \<and> grid_columns (v_grid (adjusted_value ascii_lib (initial_stats\<lparr>kpi_count := 3\<rparr>) (default_heap, default_optimizer))) = 2
   \<and> kpi_padding (v_kpi_card (adjusted_value ascii_lib (initial_stats\<lparr>kpi_count := 3\<rparr>) (default_heap, default_optimizer))) = 20"
  using few_kpis_rule [of initial_stats ascii_lib default_heap default_optimizer]
    few_kpis_rule [of "initial_stats\<lparr>kpi_count := 3\<rparr>" ascii_lib default_heap default_optimizer]
  by (simp add: default_state_eval initial_stats_def GridLayout_def KPICardLayout_def)

text \<open>
  C3 as it was stated expects the baseline values for \<open>kpi_count = 0\<close>. The default
  configuration has two columns and padding 20; with no KPI card at all the returned
  configuration has one column and padding 24.
\<close>

theorem few_kpis_rule_counterexample:
  "kpi_count initial_stats = 0
   \<and> grid_columns (v_grid (config_value default_heap (config default_optimizer))) = 2
   \<and> grid_columns (v_grid (adjusted_value ascii_lib initial_stats (default_heap, default_optimizer))) = 1
   \<and> kpi_padding (v_kpi_card (config_value default_heap (config default_optimizer))) = 20
   \<and> kpi_padding (v_kpi_card (adjusted_value ascii_lib initial_stats (default_heap, default_optimizer))) = 24"
  using adjusted_grid_columns [of ascii_lib initial_stats default_heap default_optimizer]
    adjusted_kpi_padding [of ascii_lib initial_stats default_heap default_optimizer]
  by (simp add: default_state_eval initial_stats_def GridLayout_def KPICardLayout_def)

subsection \<open>The width the KPI font size is solved against\<close>

text \<open>
  C4 (as amended). For every baseline, the font size of the KPI value in the returned
  configuration is decided by the solver run on \<open>max_kpi_value_length\<close> digits with bounds
  18 and 32 against the fixed width \<open>kpi_card_width = (800 - 20) div 2 - 40 = 350\<close>, whatever
  the gap and the padding of the baseline are. The fixed width is the width the
  specification's formula gives for a gap of 20 and a padding of 20.
\<close>

theorem kpi_font_uses_fixed_width:
  "kpi_card_width = 350
   \<and> kpi_font_size_value (v_kpi_card (adjusted_value L stats (h, self))) =
       (let n = max_kpi_value_length stats;
            solved = calculate_safe_font_size L (replicate (nat n) 57) kpi_card_width 18 32
        in if n > 0 \<and> snd solved then fst solved
           else if n > 10 then min 28 (fst solved)
           else kpi_font_size_value (v_kpi_card (config_value h (config self))))
   \<and> (grid_gap (v_grid c) = 20 \<and> kpi_padding (v_kpi_card c) = 20 \<longrightarrow>
        kpi_usable_width_spec c = kpi_card_width)"
  by (simp add: adjusted_kpi_font kpi_card_width_def kpi_usable_width_spec_def)

theorem kpi_font_uses_fixed_width_witness:
  "kpi_usable_width_spec (config_value default_heap (config default_optimizer)) = 350
   \<and> kpi_font_size_value (v_kpi_card (adjusted_value ascii_lib
         (initial_stats\<lparr>kpi_count := 1, max_kpi_value_length := 12\<rparr>)
         (padded_heap, default_optimizer))) = 28"
  using kpi_font_uses_fixed_width
      [of ascii_lib "initial_stats\<lparr>kpi_count := 1, max_kpi_value_length := 12\<rparr>"
      padded_heap default_optimizer "config_value default_heap (config default_optimizer)"]
  by (simp add: solve_twelve_digits default_state_eval initial_stats_def GridLayout_def
      KPICardLayout_def kpi_card_width_def Let_def)

text \<open>
  C4 as it was stated takes the width from the baseline. With a KPI padding of 100 the
  formula gives 190, against which twelve digits fit at size 26 and not above, so the
  solver would answer \<open>(26, True)\<close> and the font size would be 26; the engine solves
  against 350 and returns 28.
\<close>

theorem kpi_width_counterexample:
  "kpi_usable_width_spec (config_value padded_heap (config default_optimizer)) = 190
   \<and> calculate_safe_font_size ascii_lib (replicate 12 57) 190 18 32 = (26, True)
   \<and> kpi_font_size_value (v_kpi_card (adjusted_value ascii_lib
         (initial_stats\<lparr>kpi_count := 1, max_kpi_value_length := 12\<rparr>)
         (padded_heap, default_optimizer))) = 28"
  by (simp add: adjusted_kpi_font solve_twelve_digits fit_in_190 default_state_eval padded_eval
      kpi_usable_width_spec_def initial_stats_def KPICardLayout_def GridLayout_def)

subsection \<open>Scenario A\<close>

text \<open>
  C7. When the analysis yields \<open>max_kpi_value_length = 12\<close>, the solver is run on twelve
  digits against the width 350 with bounds 18 and 32; size 32 gives the width
  \<open>12 * 0.6 * 32 = 230.4\<close>, which fits, so the solver returns \<open>(32, False)\<close>, and since
  \<open>12 > 10\<close> the returned configuration has \<^verbatim>\<open>kpi_card.font_size_value = min(28, 32) = 28\<close>.
\<close>

theorem scenario_A_font_size:
  assumes "max_kpi_value_length stats = 12"
  shows "kpi_card_width = 350
   \<and> estimate_text_width L (replicate 12 57) 32 = 2304 / 10
   \<and> calculate_safe_font_size L (replicate 12 57) kpi_card_width 18 32 = (32, False)
   \<and> kpi_font_size_value (v_kpi_card (adjusted_value L stats (h, self))) = 28"
  using assms
  by (simp add: adjusted_kpi_font solve_twelve_digits width_of_digits kpi_card_width_def)

theorem scenario_A_font_size_witness:
  "analyze_document ascii_lib scenario_A
     = Inr (initial_stats\<lparr>kpi_count := 1, max_kpi_value_length := 12\<rparr>)
   \<and> kpi_font_size_value (v_kpi_card (adjusted_value ascii_lib
        (initial_stats\<lparr>kpi_count := 1, max_kpi_value_length := 12\<rparr>)
        (default_heap, default_optimizer))) = 28"
proof -
  have m: "max_kpi_value_length (initial_stats\<lparr>kpi_count := 1, max_kpi_value_length := 12\<rparr>) = 12"
    by simp
  from scenario_A_font_size [OF m, of ascii_lib default_heap default_optimizer] scenario_A_stats
  show ?thesis by simp
qed

subsection \<open>The baseline is left alone\<close>

text \<open>
  C9. \<^verbatim>\<open>_adjust_config_based_on_stats\<close> does not change any object that existed before the
  call: every object below the allocation counter is the same afterwards, so the
  baseline configuration of the optimizer has the same value, field for field, and the
  optimizer still refers to it. The configuration that is returned and its six
  sub-configurations are objects allocated by the call, each distinct from the
  corresponding object of the baseline; they are created with the values of the
  baseline, and the rules then work on them.
\<close>

theorem adjust_leaves_baseline:
  assumes alloc: "allocated h (config self)"
    and run: "adjust_config_based_on_stats L stats (h, self) = (cfg, h', self')"
  shows "(\<forall>a < next_ref h.
            page_objs h' a = page_objs h a \<and> kpi_card_objs h' a = kpi_card_objs h a \<and>
            callout_objs h' a = callout_objs h a \<and> table_objs h' a = table_objs h a \<and>
            chart_objs h' a = chart_objs h a \<and> grid_objs h' a = grid_objs h a \<and>
            config_objs h' a = config_objs h a)
     \<and> config_value h' (config self) = config_value h (config self)
     \<and> config self' = config self
     \<and> next_ref h \<le> cfg \<and> cfg \<noteq> config self
     \<and> next_ref h \<le> page (config_objs h' cfg)
     \<and> page (config_objs h' cfg) \<noteq> page (config_objs h' (config self))
     \<and> next_ref h \<le> kpi_card (config_objs h' cfg)
     \<and> kpi_card (config_objs h' cfg) \<noteq> kpi_card (config_objs h' (config self))
     \<and> next_ref h \<le> callout (config_objs h' cfg)
     \<and> callout (config_objs h' cfg) \<noteq> callout (config_objs h' (config self))
     \<and> next_ref h \<le> table (config_objs h' cfg)
     \<and> table (config_objs h' cfg) \<noteq> table (config_objs h' (config self))
     \<and> next_ref h \<le> chart (config_objs h' cfg)
     \<and> chart (config_objs h' cfg) \<noteq> chart (config_objs h' (config self))
     \<and> next_ref h \<le> grid (config_objs h' cfg)
     \<and> grid (config_objs h' cfg) \<noteq> grid (config_objs h' (config self))
     \<and> cfg = fst (copy_config (config self) h)
     \<and> config_value (snd (copy_config (config self) h)) cfg = config_value h (config self)"
proof -
  obtain r h1 where c: "copy_config (config self) h = (r, h1)"
    by (cases "copy_config (config self) h")
  note cr = copy_config_refs [OF c]
  let ?b = "config_objs h (config self)"
  let ?c = "config_objs h1 r"
  from run c have cfg: "cfg = r"
    and h': "h' = fst (apply_rules L stats r (h1, optimization_log self))"
    and self': "config self' = config self"
    by (auto simp add: adjust_unfold)
  have t: "touches_only ?c h1 h'"
    using touches_apply_rules [of "(h1, optimization_log self)" r L stats] h' by simp
  have same_cfgs: "config_objs h' = config_objs h1"
    using t by (simp add: touches_only_def)
  have frame: "page_objs h' a = page_objs h a \<and> kpi_card_objs h' a = kpi_card_objs h a \<and>
            callout_objs h' a = callout_objs h a \<and> table_objs h' a = table_objs h a \<and>
            chart_objs h' a = chart_objs h a \<and> grid_objs h' a = grid_objs h a \<and>
            config_objs h' a = config_objs h a" if a: "a < next_ref h" for a
  proof -
    from a cr(2-7) have "a \<noteq> page ?c" "a \<noteq> kpi_card ?c" "a \<noteq> callout ?c" "a \<noteq> table ?c"
      "a \<noteq> grid ?c"
      by simp_all
    with t have "page_objs h' a = page_objs h1 a \<and> kpi_card_objs h' a = kpi_card_objs h1 a \<and>
            callout_objs h' a = callout_objs h1 a \<and> table_objs h' a = table_objs h1 a \<and>
            chart_objs h' a = chart_objs h1 a \<and> grid_objs h' a = grid_objs h1 a \<and>
            config_objs h' a = config_objs h1 a"
      by (simp add: touches_only_def)
    with copy_config_frame [OF c a] show ?thesis by simp
  qed
  from alloc have b: "config self < next_ref h" "page ?b < next_ref h" "kpi_card ?b < next_ref h"
    "callout ?b < next_ref h" "table ?b < next_ref h" "chart ?b < next_ref h"
    "grid ?b < next_ref h"
    by (simp_all add: allocated_def Let_def)
  have base: "config_objs h' (config self) = ?b"
    using frame [OF b(1)] by simp
  have val: "config_value h' (config self) = config_value h (config self)"
    using base frame [OF b(2)] frame [OF b(3)] frame [OF b(4)] frame [OF b(5)] frame [OF b(6)]
      frame [OF b(7)]
    by (simp add: config_value_def Let_def)
  have fresh: "next_ref h \<le> r" "next_ref h \<le> page (config_objs h' r)"
    "next_ref h \<le> kpi_card (config_objs h' r)" "next_ref h \<le> callout (config_objs h' r)"
    "next_ref h \<le> table (config_objs h' r)" "next_ref h \<le> chart (config_objs h' r)"
    "next_ref h \<le> grid (config_objs h' r)"
    using cr by (simp_all add: same_cfgs)
  have copied: "r = fst (copy_config (config self) h)"
    "config_value (snd (copy_config (config self) h)) r = config_value h (config self)"
    using c copy_config_value [OF c] by simp_all
  from frame val self' fresh b base copied show ?thesis
    unfolding cfg by (intro conjI allI impI) (simp_all)
qed

theorem adjust_leaves_baseline_witness:
  "allocated default_heap (config default_optimizer)
   \<and> fst (adjust_config_based_on_stats ascii_lib initial_stats (default_heap, default_optimizer)) = 13
   \<and> config default_optimizer = 6
   \<and> config_value
        (fst (snd (adjust_config_based_on_stats ascii_lib initial_stats
                     (default_heap, default_optimizer))))
        (config default_optimizer)
      = config_value default_heap (config default_optimizer)"
proof -
  have a: "allocated default_heap (config default_optimizer)"
    by (simp add: default_state_eval)
  obtain cfg h' self' where r:
    "adjust_config_based_on_stats ascii_lib initial_stats (default_heap, default_optimizer)
       = (cfg, h', self')"
    by (cases "adjust_config_based_on_stats ascii_lib initial_stats (default_heap, default_optimizer)")
  from adjust_leaves_baseline [OF a r] default_adjust_result [of ascii_lib initial_stats] a r
  show ?thesis by (simp add: default_state_eval)
qed

subsection \<open>The optimization log between runs\<close>

text \<open>
  C10. After a call of \<^verbatim>\<open>optimize_for_document\<close> the list \<^verbatim>\<open>optimization_log\<close> of the
  optimizer is empty. Hence, starting from a newly built optimizer, two calls in a row on
  documents with the same statistics put the same list of descriptions into their log
  entries: nothing of the first run is left over for the second.
\<close>

theorem log_is_empty_between_runs:
  assumes fresh: "optimization_log self = []"
    and run1: "optimize_with_entry L now1 ir1 (h, self) = Inr ((cfg1, entry1), h1, self1)"
    and run2: "optimize_with_entry L now2 ir2 (h1, self1) = Inr ((cfg2, entry2), h2, self2)"
    and same: "analyze_document L ir1 = analyze_document L ir2"
  shows "optimization_log self1 = [] \<and> optimization_log self2 = []
     \<and> optimizations entry1 = optimizations entry2
     \<and> optimize_for_document L now1 ir1 (h, self) = Inr (cfg1, h1, self1)
     \<and> optimize_for_document L now2 ir2 (h1, self1) = Inr (cfg2, h2, self2)"
proof -
  note a = optimize_with_entry_Inr [OF run1]
  note b = optimize_with_entry_Inr [OF run2]
  from a(1) b(1) same have "document_stats entry1 = document_stats entry2" by simp
  with a(2) b(2) a(3) fresh have "optimizations entry1 = optimizations entry2" by simp
  with a(3) b(3) run1 run2 show ?thesis
    by (simp add: optimize_for_document_def)
qed

theorem log_is_empty_between_runs_witness:
  "optimization_log default_optimizer = []
   \<and> (case optimize_with_entry ascii_lib (lit ''2025-01-01T00:00:00'') scenario_A
              (default_heap, default_optimizer) of
         Inl e \<Rightarrow> False
       | Inr ((cfg1, entry1), h1, self1) \<Rightarrow>
           optimization_log self1 = [] \<and>
           optimizations entry1 = [KpiValueLong 12 28, FewKpiCards 1] \<and>
           (case optimize_with_entry ascii_lib (lit ''2025-01-02T00:00:00'') scenario_A
                   (h1, self1) of
              Inl e \<Rightarrow> False
            | Inr ((cfg2, entry2), h2, self2) \<Rightarrow>
                optimization_log self2 = [] \<and> optimizations entry2 = optimizations entry1))"
proof -
  let ?st = "initial_stats\<lparr>kpi_count := 1, max_kpi_value_length := 12\<rparr>"
  have f: "optimization_log default_optimizer = []" by (simp add: default_state_eval)
  have m: "messages_for ascii_lib ?st = [KpiValueLong 12 28, FewKpiCards 1]"
    by (simp add: messages_for_def kpi_font_messages_def grid_messages_def table_messages_def
        long_text_messages_def many_blocks_messages_def initial_stats_def kpi_card_width_def
        solve_twelve_digits)
  obtain c1 e1 h1 s1 where r1:
    "optimize_with_entry ascii_lib (lit ''2025-01-01T00:00:00'') scenario_A
       (default_heap, default_optimizer) = Inr ((c1, e1), h1, s1)"
    by (simp add: optimize_with_entry_def scenario_A_stats log_optimization_def split_def Let_def)
  obtain c2 e2 h2 s2 where r2:
    "optimize_with_entry ascii_lib (lit ''2025-01-02T00:00:00'') scenario_A (h1, s1)
       = Inr ((c2, e2), h2, s2)"
    by (simp add: optimize_with_entry_def scenario_A_stats log_optimization_def split_def Let_def)
  have st1: "document_stats e1 = ?st"
    using optimize_with_entry_Inr(1) [OF r1] by (simp add: scenario_A_stats)
  have o1: "optimizations e1 = [KpiValueLong 12 28, FewKpiCards 1]"
    using optimize_with_entry_Inr(2) [OF r1] f st1 m by simp
  from log_is_empty_between_runs [OF f r1 r2 refl] o1 f r1 r2 show ?thesis by simp
qed

section \<open>Properties of the config store\<close>

lemma bind_load_simps [simp]:
  "bind_load (Inl e) f = Inl e"
  "bind_load (Inr x) f = f x"
  by (simp_all add: bind_load_def)

lemma raising_simps [simp]:
  "raising (Inl e) = Inl (Raised e)"
  "raising (Inr x) = Inr x"
  by (simp_all add: raising_def)

lemmas kw_defs = kwargs_def kw_int_def kw_float_def kw_str_def kw_bool_def

lemma page_roundtrip: "page_of_kwargs (asdict_page p) = Inr p"
  by (simp add: page_of_kwargs_def asdict_page_def kw_defs)

lemma kpi_card_roundtrip: "kpi_card_of_kwargs (asdict_kpi_card k) = Inr k"
  by (simp add: kpi_card_of_kwargs_def asdict_kpi_card_def kw_defs)

lemma callout_roundtrip: "callout_of_kwargs (asdict_callout c) = Inr c"
  by (simp add: callout_of_kwargs_def asdict_callout_def kw_defs)

lemma table_roundtrip: "table_of_kwargs (asdict_table t) = Inr t"
  by (simp add: table_of_kwargs_def asdict_table_def kw_defs)

lemma chart_roundtrip: "chart_of_kwargs (asdict_chart c) = Inr c"
  by (simp add: chart_of_kwargs_def asdict_chart_def kw_defs)

lemma grid_roundtrip: "grid_of_kwargs (asdict_grid g) = Inr g"
  by (simp add: grid_of_kwargs_def asdict_grid_def kw_defs)

lemmas roundtrips = page_roundtrip kpi_card_roundtrip callout_roundtrip table_roundtrip
  chart_roundtrip grid_roundtrip

lemma from_dict_to_dict:
  "\<exists>r h'. from_dict (to_dict h c) h2 = Inr (r, h') \<and> config_value h' r = config_value h c"
  by (simp add: from_dict_def to_dict_def py_getitem_def roundtrips kw_bool_def Let_def
      new_page_def new_kpi_card_def new_callout_def new_table_def
      new_chart_def new_grid_def new_config_def config_value_def)

text \<open>
  C8. Saving the configuration of an optimizer to a path and loading that path again
  gives an optimizer whose configuration equals the saved one field for field: the six
  sub-configurations and the four flags. This holds with or without a log entry in the
  file, and whatever the file system held before.
\<close>

theorem load_save_roundtrip:
  "case load_config (save_config h self path log_entry fs) path h2 of
     Inl e \<Rightarrow> False
   | Inr (loaded, h') \<Rightarrow>
       config_value h' (config loaded) = config_value h (config self) \<and>
       optimization_log loaded = []"
proof -
  obtain r h' where r: "from_dict (to_dict h (config self)) h2 = Inr (r, h')"
    and v: "config_value h' r = config_value h (config self)"
    using from_dict_to_dict by blast
  then show ?thesis
    by (simp add: load_config_def save_config_def py_getitem_def init_optimizer_def Let_def)
qed

section \<open>Properties of the stylesheet emitter\<close>

lemma fields_of_iff: "Fld f \<in> set parts \<longleftrightarrow> f \<in> set (fields_of parts)"
  by (induction parts rule: fields_of.induct) auto

lemma printed_fields_eval:
  "printed_fields =
     [(''body'', ''font-size'', [Page_font_size_base]),
      (''body'', ''line-height'', [Page_line_height]),
      (''main'', ''padding'', [Page_page_padding]),
      (''main'', ''max-width'', [Page_max_content_width]),
      (''h1'', ''font-size'', [Page_font_size_h1]),
      (''h2'', ''font-size'', [Page_font_size_h2]),
      (''h3'', ''font-size'', [Page_font_size_h3]),
      (''h4'', ''font-size'', [Page_font_size_h4]),
      (''p'', ''margin-bottom'', [Page_paragraph_spacing]),
      (''.chapter'', ''margin-bottom'', [Page_section_spacing]),
      (''.kpi-grid'', ''grid-template-columns'', [Grid_columns]),
      (''.kpi-grid'', ''gap'', [Grid_gap]),
      (''.kpi-card'', ''padding'', [Kpi_padding]),
      (''.kpi-card'', ''min-height'', [Kpi_min_height]),
      (''.kpi-card .value'', ''font-size'', [Kpi_font_size_value]),
      (''.kpi-card .label'', ''font-size'', [Kpi_font_size_label]),
      (''.kpi-card .change'', ''font-size'', [Kpi_font_size_change]),
      (''.callout'', ''padding'', [Callout_padding]),
      (''.callout'', ''line-height'', [Callout_line_height]),
      (''.callout-title'', ''font-size'', [Callout_font_size_title]),
      (''.callout-content'', ''font-size'', [Callout_font_size_content]),
      (''th'', ''font-size'', [Table_font_size_header]),
      (''th'', ''padding'', [Table_cell_padding]),
      (''td'', ''font-size'', [Table_font_size_body]),
      (''td'', ''padding'', [Table_cell_padding]),
      (''td'', ''max-width'', [Table_max_cell_width]),
      (''.chart-card'', ''min-height'', [Chart_min_height]),
      (''.chart-card'', ''max-height'', [Chart_max_height]),
      (''.chart-card'', ''padding'', [Chart_padding]),
      (''.chart-title'', ''font-size'', [Chart_font_size_title]),
      (''.hero-kpi'', ''padding'', [Kpi_padding]),
      (''.hero-kpi .label'', ''font-size'', [Kpi_font_size_label]),
      (''.hero-kpi .value'', ''font-size'', [Kpi_font_size_value])]"
  by (simp add: printed_fields_def css_template_def px_def px_important_def)

lemma field_declarations_via_fields:
  "map (\<lambda>(sel, prop, parts). (sel, prop)) (filter (\<lambda>(sel, prop, parts). Fld f \<in> set parts) xs) =
   map (\<lambda>(sel, prop, fs). (sel, prop))
     (filter (\<lambda>(sel, prop, fs). f \<in> set fs)
        (filter (\<lambda>(sel, prop, fs). fs \<noteq> [])
           (map (\<lambda>(sel, prop, parts). (sel, prop, fields_of parts)) xs)))"
  by (induction xs) (auto simp add: fields_of_iff)

lemma field_declarations_printed:
  "field_declarations f =
     map (\<lambda>(sel, prop, fs). (sel, prop)) (filter (\<lambda>(sel, prop, fs). f \<in> set fs) printed_fields)"
  unfolding field_declarations_def printed_fields_def by (rule field_declarations_via_fields)

lemma block_decls_map:
  "block_decls (map_css_block f b) = map (\<lambda>(sel, prop, v). (sel, prop, f v)) (block_decls b)"
  by (cases b) (auto simp add: map_concat comp_def split_def map_prod_def)

lemma css_output_decls:
  "concat (map block_decls (generate_pdf_css L h self)) =
     map (\<lambda>(sel, prop, parts).
            (sel, prop, concat (map (part_text L (config_value h (config self))) parts)))
       (concat (map block_decls css_template))"
  by (simp add: generate_pdf_css_def Let_def map_concat comp_def block_decls_map)

text \<open>
  C2 (as amended). Of the 32 numeric fields of the configuration, 25 are printed in
  exactly one declaration of the stylesheet; four are printed in two declarations
  (\<^verbatim>\<open>kpi_card.padding\<close>, \<^verbatim>\<open>kpi_card.font_size_value\<close> and \<^verbatim>\<open>kpi_card.font_size_label\<close>, each
  for \<^verbatim>\<open>.kpi-card\<close> and again for \<^verbatim>\<open>.hero-kpi\<close>, and \<^verbatim>\<open>table.cell_padding\<close> for \<^verbatim>\<open>th\<close> and
  \<^verbatim>\<open>td\<close>); three are not printed at all (\<^verbatim>\<open>kpi_card.value_max_length\<close>,
  \<^verbatim>\<open>chart.font_size_label\<close>, \<^verbatim>\<open>grid.responsive_breakpoint\<close>). Each declaration of the
  emitted stylesheet is the declaration of the template at the same place, with every
  field replaced by the text of its value.
\<close>

theorem css_field_occurrences:
  "length (field_declarations f) =
     (if f \<in> {Kpi_value_max_length, Chart_font_size_label, Grid_responsive_breakpoint} then 0
      else if f \<in> {Kpi_padding, Kpi_font_size_value, Kpi_font_size_label, Table_cell_padding}
      then 2 else 1)
   \<and> concat (map block_decls (generate_pdf_css L h self)) =
       map (\<lambda>(sel, prop, parts).
              (sel, prop, concat (map (part_text L (config_value h (config self))) parts)))
         (concat (map block_decls css_template))"
proof
  show "length (field_declarations f) =
     (if f \<in> {Kpi_value_max_length, Chart_font_size_label, Grid_responsive_breakpoint} then 0
      else if f \<in> {Kpi_padding, Kpi_font_size_value, Kpi_font_size_label, Table_cell_padding}
      then 2 else 1)"
    by (cases f) (simp_all add: field_declarations_printed printed_fields_eval)
next
  show "concat (map block_decls (generate_pdf_css L h self)) =
       map (\<lambda>(sel, prop, parts).
              (sel, prop, concat (map (part_text L (config_value h (config self))) parts)))
         (concat (map block_decls css_template))"
    by (rule css_output_decls)
qed

text \<open>
  C2 as it was stated wants every numeric field in exactly one declaration: the padding
  of the KPI card is in two, and the value length threshold is in none.
\<close>

theorem css_fields_counterexample:
  "field_declarations Kpi_padding = [(''.kpi-card'', ''padding''), (''.hero-kpi'', ''padding'')]
   \<and> field_declarations Kpi_value_max_length = []"
  by (simp add: field_declarations_printed printed_fields_eval)

end
